theory Spec2Isabelle
  imports Main "HOL-Library.List_Lexorder" "HOL-Library.AList" "HOL-Library.Multiset"
begin

section \<open>Strings\<close>

text \<open>
  Names arrive through the JSON decoder, which only produces valid UTF-8, so a name is
  modelled as its sequence of code points. \<open>TrimSpace\<close> works on code points;
  Go's \<open>len\<close> counts the bytes of the UTF-8 encoding. Path and query values are only
  compared with ASCII literals and parsed as numbers, so they are byte strings.
\<close>

type_synonym rune = nat

definition IsSpace :: "rune \<Rightarrow> bool" where
  "IsSpace r =
     (r = 9 \<or> r = 10 \<or> r = 11 \<or> r = 12 \<or> r = 13 \<or> r = 32 \<or> r = 133 \<or> r = 160 \<or>
      r = 5760 \<or> (8192 \<le> r \<and> r \<le> 8202) \<or> r = 8232 \<or> r = 8233 \<or> r = 8239 \<or>
      r = 8287 \<or> r = 12288)"

definition TrimSpace :: "rune list \<Rightarrow> rune list" where
  "TrimSpace s = rev (dropWhile IsSpace (rev (dropWhile IsSpace s)))"

definition RuneLen :: "rune \<Rightarrow> nat" where
  "RuneLen r = (if r < 128 then 1 else if r < 2048 then 2 else if r < 65536 then 3 else 4)"

definition len :: "rune list \<Rightarrow> nat" where
  "len s = sum_list (map RuneLen s)"

text \<open>\<open>strconv.Atoi\<close>: an optional sign, then at least one decimal digit, within 64 bits.\<close>

definition digit :: "char \<Rightarrow> nat option" where
  "digit c = (if c \<in> set ''0123456789'' then Some (of_char c - 48) else None)"

fun digits :: "string \<Rightarrow> nat \<Rightarrow> nat option" where
  "digits [] acc = Some acc"
| "digits (c # cs) acc = (case digit c of None \<Rightarrow> None | Some v \<Rightarrow> digits cs (10 * acc + v))"

definition Atoi :: "string \<Rightarrow> int option" where
  "Atoi s =
     (let neg = (case s of [] \<Rightarrow> False | c # r \<Rightarrow> c = CHR ''-'');
          ds = (case s of [] \<Rightarrow> [] | c # r \<Rightarrow> if c = CHR ''-'' \<or> c = CHR ''+'' then r else s)
      in if ds = [] then None
         else (case digits ds 0 of
                 None \<Rightarrow> None
               | Some n \<Rightarrow>
                   (let v = (if neg then - int n else int n)
                    in if - (2 ^ 63) \<le> v \<and> v \<le> 2 ^ 63 - 1 then Some v else None)))"

text \<open>\<open>strconv.ParseBool\<close> accepts exactly these twelve spellings.\<close>

definition ParseBool :: "string \<Rightarrow> bool option" where
  "ParseBool str =
     (if str \<in> set [''1'', ''t'', ''T'', ''TRUE'', ''true'', ''True''] then Some True
      else if str \<in> set [''0'', ''f'', ''F'', ''FALSE'', ''false'', ''False''] then Some False
      else None)"

text \<open>\<open>r.URL.Query().Get(key)\<close>: the first value of the key, or the empty string.\<close>

definition Query_Get :: "(string \<times> string) list \<Rightarrow> string \<Rightarrow> string" where
  "Query_Get query k = (case map_of query k of None \<Rightarrow> [] | Some v \<Rightarrow> v)"

section \<open>Data model (models.go)\<close>

text \<open>
  Timestamps are integers; the zero time is 0. A nil pointer is \<open>None\<close>, a nil slice is
  the empty list.
\<close>

record Employee =
  e_ID :: int
  e_DepartmentID :: int
  e_FullName :: "rune list"
  e_Position :: "rune list"
  e_HiredAt :: "int option"
  e_CreatedAt :: int

datatype Department =
  Department (d_ID: int) (d_Name: "rune list") (d_ParentID: "int option") (d_CreatedAt: int)
    (d_Children: "Department list") (d_Employees: "Employee list")

definition with_Name :: "rune list \<Rightarrow> Department \<Rightarrow> Department" where
  "with_Name n d = Department (d_ID d) n (d_ParentID d) (d_CreatedAt d) (d_Children d) (d_Employees d)"

definition with_ParentID :: "int option \<Rightarrow> Department \<Rightarrow> Department" where
  "with_ParentID p d = Department (d_ID d) (d_Name d) p (d_CreatedAt d) (d_Children d) (d_Employees d)"

definition with_Children :: "Department list \<Rightarrow> Department \<Rightarrow> Department" where
  "with_Children cs d = Department (d_ID d) (d_Name d) (d_ParentID d) (d_CreatedAt d) cs (d_Employees d)"

definition with_Employees :: "Employee list \<Rightarrow> Department \<Rightarrow> Department" where
  "with_Employees es d = Department (d_ID d) (d_Name d) (d_ParentID d) (d_CreatedAt d) (d_Children d) es"

section \<open>The database (migrations/00001_init.sql, as reached through the ORM)\<close>

text \<open>
  A row of \<open>departments\<close> has the four columns of the schema; the fields tagged
  \<open>gorm:"-"\<close> are not stored, so a loaded record has no children and no employees.
  Every field of an employee is a column. The tables are kept in row order, with the next
  values of their SERIAL sequences.
\<close>

record department_row =
  row_id :: int
  row_name :: "rune list"
  row_parent_id :: "int option"
  row_created_at :: int

definition scan :: "department_row \<Rightarrow> Department" where
  "scan r = Department (row_id r) (row_name r) (row_parent_id r) (row_created_at r) [] []"

definition row_of :: "Department \<Rightarrow> department_row" where
  "row_of d =
     \<lparr>row_id = d_ID d, row_name = d_Name d, row_parent_id = d_ParentID d,
      row_created_at = d_CreatedAt d\<rparr>"

record tables =
  departments :: "department_row list"
  employees :: "Employee list"
  departments_id_seq :: int
  employees_id_seq :: int

text \<open>
  The handle state: the committed tables, the working copy of the request's open
  transaction (if any), the environment's fault schedule (its head says whether the next
  database call fails, and with which driver message; an exhausted schedule means no
  further failure) and the log of the database calls made so far. Statements are modelled
  by their SQL meaning, preceded by the hooks that the ORM runs for them.
\<close>

datatype db_op =
  OpFirst | OpFind | OpPluck | OpCount | OpCreate | OpSave | OpUpdate | OpDelete
  | OpBegin | OpCommit | OpRollback

record db =
  committed :: tables
  pending :: "tables option"
  faults :: "string option list"
  calls :: "db_op list"

datatype handle = DB | TX

datatype error = ErrRecordNotFound | ErrStore string | ErrForeignKey | ErrNew string

definition call :: "db_op \<Rightarrow> db \<Rightarrow> string option \<times> db" where
  "call c s =
     ((case faults s of [] \<Rightarrow> None | f # fs \<Rightarrow> f),
      s\<lparr>faults := tl (faults s), calls := calls s @ [c]\<rparr>)"

definition view :: "handle \<Rightarrow> db \<Rightarrow> tables" where
  "view h s =
     (case h of DB \<Rightarrow> committed s
      | TX \<Rightarrow> (case pending s of None \<Rightarrow> committed s | Some t \<Rightarrow> t))"

definition store :: "handle \<Rightarrow> tables \<Rightarrow> db \<Rightarrow> db" where
  "store h t s = (case h of DB \<Rightarrow> s\<lparr>committed := t\<rparr> | TX \<Rightarrow> s\<lparr>pending := Some t\<rparr>)"

text \<open>The database right after the migration: empty tables, sequences at 1.\<close>

definition init_db :: db where
  "init_db =
     \<lparr>committed = \<lparr>departments = [], employees = [], departments_id_seq = 1,
                    employees_id_seq = 1\<rparr>,
      pending = None, faults = [], calls = []\<rparr>"

text \<open>\<open>First(&dept, id)\<close>: the row with that primary key.\<close>

definition First :: "handle \<Rightarrow> int \<Rightarrow> db \<Rightarrow> (error + Department) \<times> db" where
  "First h i s =
     (case call OpFirst s of
        (Some m, s1) \<Rightarrow> (Inl (ErrStore m), s1)
      | (None, s1) \<Rightarrow>
          (case find (\<lambda>r. row_id r = i) (departments (view h s1)) of
             None \<Rightarrow> (Inl ErrRecordNotFound, s1)
           | Some r \<Rightarrow> (Inr (scan r), s1)))"

text \<open>
  SQL comparison \<open>parent_id = ?\<close>: a WHERE clause keeps a row only when the
  comparison is true, and a comparison with NULL on either side is never true.
\<close>

fun sql_eq :: "int option \<Rightarrow> int option \<Rightarrow> bool" where
  "sql_eq (Some a) (Some b) = (a = b)"
| "sql_eq _ _ = False"

text \<open>The referenced department of a foreign key exists (a NULL reference is allowed).\<close>

definition fk_ok :: "tables \<Rightarrow> int option \<Rightarrow> bool" where
  "fk_ok t p = (case p of None \<Rightarrow> True | Some i \<Rightarrow> i \<in> set (map row_id (departments t)))"

text \<open>\<open>Where("parent_id = ?", p).Pluck("id", &ids)\<close>, as a query on the rows.\<close>

definition childIDs :: "department_row list \<Rightarrow> int \<Rightarrow> int list" where
  "childIDs rows p = map row_id (filter (\<lambda>r. sql_eq (row_parent_id r) (Some p)) rows)"

text \<open>
  \<open>ON DELETE CASCADE\<close> on \<open>departments.parent_id\<close>: starting from the deleted ids, every
  row that references a deleted row is deleted too, until no such row is left.
\<close>

function fk_cascade :: "department_row list \<Rightarrow> int list \<Rightarrow> int list" where
  "fk_cascade rows dead =
     (case filter (\<lambda>r. row_id r \<notin> set dead \<and>
                        (case row_parent_id r of None \<Rightarrow> False | Some p \<Rightarrow> p \<in> set dead)) rows of
        [] \<Rightarrow> dead
      | v # vs \<Rightarrow> fk_cascade rows (dead @ map row_id (v # vs)))"
  by pat_completeness auto
termination
proof (relation "measure (\<lambda>(rows, dead). length (filter (\<lambda>r. row_id r \<notin> set dead) rows))",
    goal_cases)
  case 1
  then show ?case by simp
next
  case (2 rows dead v vs)
  let ?Q = "\<lambda>r. row_id r \<notin> set dead"
  have v: "v \<in> set (filter ?Q rows)"
  proof -
    from 2 have "v \<in> set (filter (\<lambda>r. row_id r \<notin> set dead \<and>
        (case row_parent_id r of None \<Rightarrow> False | Some p \<Rightarrow> p \<in> set dead)) rows)"
      by (metis list.set_intros(1))
    then show ?thesis by simp
  qed
  have "filter (\<lambda>r. row_id r \<notin> set (dead @ map row_id (v # vs))) rows
        = filter (\<lambda>r. row_id r \<notin> set (map row_id (v # vs))) (filter ?Q rows)"
    by (auto simp: filter_filter intro: filter_cong)
  moreover have "length (filter (\<lambda>r. row_id r \<notin> set (map row_id (v # vs))) (filter ?Q rows))
        < length (filter ?Q rows)"
    using v by (intro length_filter_less [of v]) auto
  ultimately show ?case by simp
qed

declare fk_cascade.simps [simp del]

text \<open>
  \<open>Delete(&dept)\<close>: \<open>DELETE FROM departments WHERE id = ?\<close>, with the cascade of
  both foreign keys (the second one removes the employees of every deleted department).
\<close>

definition Delete_Department :: "handle \<Rightarrow> Department \<Rightarrow> db \<Rightarrow> error option \<times> db" where
  "Delete_Department h d s =
     (case call OpDelete s of
        (Some m, s1) \<Rightarrow> (Some (ErrStore m), s1)
      | (None, s1) \<Rightarrow>
          (let t = view h s1 in
           if d_ID d \<in> set (map row_id (departments t))
           then (let dead = fk_cascade (departments t) [d_ID d]
                 in (None,
                     store h
                       (t\<lparr>departments := filter (\<lambda>r. row_id r \<notin> set dead) (departments t),
                          employees := filter (\<lambda>e. e_DepartmentID e \<notin> set dead) (employees t)\<rparr>)
                       s1))
           else (None, s1)))"

text \<open>
  Transactions: \<open>Begin\<close> opens a working copy, \<open>Commit\<close> makes it the committed state,
  \<open>Rollback\<close> discards it (its own result is ignored by the handlers). A commit that fails
  leaves the committed tables as they were and closes the transaction.
\<close>

definition Begin :: "db \<Rightarrow> error option \<times> db" where
  "Begin s =
     (case call OpBegin s of
        (Some m, s1) \<Rightarrow> (Some (ErrStore m), s1)
      | (None, s1) \<Rightarrow> (None, s1\<lparr>pending := Some (committed s1)\<rparr>))"

definition Rollback :: "db \<Rightarrow> db" where
  "Rollback s = s\<lparr>pending := None, calls := calls s @ [OpRollback]\<rparr>"

definition Commit :: "db \<Rightarrow> error option \<times> db" where
  "Commit s =
     (case call OpCommit s of
        (Some m, s1) \<Rightarrow> (Some (ErrStore m), s1\<lparr>pending := None\<rparr>)
      | (None, s1) \<Rightarrow> (None, s1\<lparr>committed := view TX s1, pending := None\<rparr>))"

section \<open>Validation hooks (models.go)\<close>

text \<open>
  \<open>Department.BeforeSave\<close>: the record is mutated in place, so the hook returns the
  record together with the error. The sibling query is
  \<open>name = ? AND parent_id = ?\<close>, with \<open>id != ?\<close> added when the record has an id.
\<close>

definition sibling_count :: "tables \<Rightarrow> Department \<Rightarrow> nat" where
  "sibling_count t d =
     length (filter (\<lambda>r. row_name r = d_Name d \<and> sql_eq (row_parent_id r) (d_ParentID d) \<and>
                          (if d_ID d \<noteq> 0 then row_id r \<noteq> d_ID d else True))
               (departments t))"

definition Department_BeforeSave ::
  "handle \<Rightarrow> Department \<Rightarrow> db \<Rightarrow> (Department \<times> error option) \<times> db" where
  "Department_BeforeSave h d s =
     (let d1 = with_Name (TrimSpace (d_Name d)) d in
      if len (d_Name d1) = 0 then ((d1, Some (ErrNew ''name cannot be empty'')), s)
      else if len (d_Name d1) > 200 then ((d1, Some (ErrNew ''name too long (max 200)'')), s)
      else
        (case call OpCount s of
           (Some m, s1) \<Rightarrow> ((d1, Some (ErrStore m)), s1)
         | (None, s1) \<Rightarrow>
             if sibling_count (view h s1) d1 > 0
             then ((d1, Some (ErrNew ''department name must be unique within the same parent'')), s1)
             else ((d1, None), s1)))"

definition Employee_BeforeSave :: "Employee \<Rightarrow> Employee \<times> error option" where
  "Employee_BeforeSave e =
     (let e1 = e\<lparr>e_FullName := TrimSpace (e_FullName e)\<rparr> in
      if len (e_FullName e1) = 0 then (e1, Some (ErrNew ''full_name cannot be empty''))
      else if len (e_FullName e1) > 200 then (e1, Some (ErrNew ''full_name too long (max 200)''))
      else
        (let e2 = e1\<lparr>e_Position := TrimSpace (e_Position e1)\<rparr> in
         if len (e_Position e2) = 0 then (e2, Some (ErrNew ''position cannot be empty''))
         else if len (e_Position e2) > 200 then (e2, Some (ErrNew ''position too long (max 200)''))
         else (e2, None)))"

text \<open>
  \<open>CheckCycle\<close>: the loop over the queue, with the visited map as a set. Each
  \<open>Pluck\<close> is a database call and may fail.
\<close>

definition parentIDs :: "department_row list \<Rightarrow> int set" where
  "parentIDs rows = the ` (set (map row_parent_id rows) - {None})"

lemma parentIDs_iff: "p \<in> parentIDs rows \<longleftrightarrow> (\<exists>r \<in> set rows. row_parent_id r = Some p)"
  by (force simp: parentIDs_def image_iff)

lemma finite_parentIDs: "finite (parentIDs rows)"
  by (simp add: parentIDs_def)

lemma sql_eq_Some [simp]: "sql_eq x (Some p) = (x = Some p)"
  by (cases x) auto

lemma childIDs_empty: "p \<notin> parentIDs rows \<Longrightarrow> childIDs rows p = []"
  by (auto simp: childIDs_def parentIDs_iff filter_empty_conv)

lemma call_committed: "call c s = (x, s1) \<Longrightarrow> committed s1 = committed s"
  by (auto simp: call_def)

function check_loop :: "int \<Rightarrow> int list \<Rightarrow> int set \<Rightarrow> db \<Rightarrow> error option \<times> db" where
  "check_loop np [] visited s = (None, s)"
| "check_loop np (current # queue) visited s =
     (if current \<in> visited then check_loop np queue visited s
      else if current = np
      then (Some (ErrNew ''cannot move department inside its own subtree''), s)
      else (case call OpPluck s of
              (Some m, s1) \<Rightarrow> (Some (ErrStore m), s1)
            | (None, s1) \<Rightarrow>
                check_loop np (queue @ childIDs (departments (committed s1)) current)
                  (insert current visited) s1))"
  by pat_completeness auto
termination
proof (relation
    "measures [\<lambda>(np, queue, visited, s). card (parentIDs (departments (committed s)) - visited),
               \<lambda>(np, queue, visited, s). length queue]", goal_cases)
  case 1
  then show ?case by simp
next
  case (2 np current queue visited s)
  then show ?case by simp
next
  case (3 np current queue visited s x s1)
  then have c: "committed s1 = committed s" by (auto dest: call_committed [OF sym])
  let ?P = "parentIDs (departments (committed s))"
  show ?case
  proof (cases "current \<in> ?P")
    case True
    have "card (?P - insert current visited) < card (?P - visited)"
      using True 3(1) by (intro psubset_card_mono) (auto simp: finite_parentIDs)
    then show ?thesis by (simp add: c)
  next
    case False
    then have "childIDs (departments (committed s)) current = []" by (rule childIDs_empty)
    moreover have "?P - insert current visited = ?P - visited"
      using False by auto
    ultimately show ?thesis by (simp add: c)
  qed
qed

definition CheckCycle :: "Department \<Rightarrow> int option \<Rightarrow> db \<Rightarrow> error option \<times> db" where
  "CheckCycle d newParentID s =
     (case newParentID of
        None \<Rightarrow> (None, s)
      | Some np \<Rightarrow>
          if np = d_ID d then (Some (ErrNew ''cannot be parent of itself''), s)
          else (case call OpPluck s of
                  (Some m, s1) \<Rightarrow> (Some (ErrStore m), s1)
                | (None, s1) \<Rightarrow>
                    check_loop np (childIDs (departments (committed s1)) (d_ID d)) {d_ID d} s1))"

section \<open>ORM writes\<close>

text \<open>
  \<open>Create\<close> runs the hook, then inserts the row with the next sequence value as id and
  the current time as creation time. \<open>Save\<close> runs the hook, then rewrites every column
  of the row with the record's id. Both are subject to the foreign keys of the schema.
\<close>

definition Create_Department ::
  "int \<Rightarrow> Department \<Rightarrow> db \<Rightarrow> (Department \<times> error option) \<times> db" where
  "Create_Department now d s =
     (case Department_BeforeSave DB d s of
        ((d1, Some e), s1) \<Rightarrow> ((d1, Some e), s1)
      | ((d1, None), s1) \<Rightarrow>
          (case call OpCreate s1 of
             (Some m, s2) \<Rightarrow> ((d1, Some (ErrStore m)), s2)
           | (None, s2) \<Rightarrow>
               (let t = committed s2;
                    d2 = Department (departments_id_seq t) (d_Name d1) (d_ParentID d1) now
                           (d_Children d1) (d_Employees d1)
                in if fk_ok t (d_ParentID d2)
                   then ((d2, None),
                         s2\<lparr>committed := t\<lparr>departments := departments t @ [row_of d2],
                                             departments_id_seq := departments_id_seq t + 1\<rparr>\<rparr>)
                   else ((d1, Some ErrForeignKey), s2))))"

definition Create_Employee ::
  "int \<Rightarrow> Employee \<Rightarrow> db \<Rightarrow> (Employee \<times> error option) \<times> db" where
  "Create_Employee now e s =
     (case Employee_BeforeSave e of
        (e1, Some err) \<Rightarrow> ((e1, Some err), s)
      | (e1, None) \<Rightarrow>
          (case call OpCreate s of
             (Some m, s2) \<Rightarrow> ((e1, Some (ErrStore m)), s2)
           | (None, s2) \<Rightarrow>
               (let t = committed s2;
                    e2 = e1\<lparr>e_ID := employees_id_seq t, e_CreatedAt := now\<rparr>
                in if fk_ok t (Some (e_DepartmentID e2))
                   then ((e2, None),
                         s2\<lparr>committed := t\<lparr>employees := employees t @ [e2],
                                             employees_id_seq := employees_id_seq t + 1\<rparr>\<rparr>)
                   else ((e1, Some ErrForeignKey), s2))))"

definition Save_Department :: "Department \<Rightarrow> db \<Rightarrow> (Department \<times> error option) \<times> db" where
  "Save_Department d s =
     (case Department_BeforeSave DB d s of
        ((d1, Some e), s1) \<Rightarrow> ((d1, Some e), s1)
      | ((d1, None), s1) \<Rightarrow>
          (case call OpSave s1 of
             (Some m, s2) \<Rightarrow> ((d1, Some (ErrStore m)), s2)
           | (None, s2) \<Rightarrow>
               (let t = committed s2
                in if fk_ok t (d_ParentID d1)
                   then ((d1, None),
                         s2\<lparr>committed :=
                              t\<lparr>departments :=
                                   map (\<lambda>r. if row_id r = d_ID d1 then row_of d1 else r)
                                     (departments t)\<rparr>\<rparr>)
                   else ((d1, Some ErrForeignKey), s2))))"

text \<open>
  \<open>Model(&Employee{}).Where("department_id = ?", a).Update("department_id", b)\<close> and
  \<open>Model(&Department{}).Where("parent_id = ?", a).Update("parent_id", b)\<close>. The ORM
  runs the \<open>BeforeSave\<close> hook of the model value given to \<open>Model\<close>, here the zero
  value of the type, with the handle of the statement; when the hook returns an error the
  statement returns it and no SQL is sent. Otherwise the rows are updated, and a changed
  row must reference an existing department.
\<close>

definition zero_Employee :: Employee where
  "zero_Employee =
     \<lparr>e_ID = 0, e_DepartmentID = 0, e_FullName = [], e_Position = [], e_HiredAt = None,
      e_CreatedAt = 0\<rparr>"

definition zero_Department :: Department where
  "zero_Department = Department 0 [] None 0 [] []"

definition Update_department_id :: "handle \<Rightarrow> int \<Rightarrow> int \<Rightarrow> db \<Rightarrow> error option \<times> db" where
  "Update_department_id h a b s =
     (case Employee_BeforeSave zero_Employee of
        (e1, Some err) \<Rightarrow> (Some err, s)
      | (e1, None) \<Rightarrow>
          (case call OpUpdate s of
             (Some m, s1) \<Rightarrow> (Some (ErrStore m), s1)
           | (None, s1) \<Rightarrow>
               (let t = view h s1 in
                if fk_ok t (Some b)
                then (None,
                      store h
                        (t\<lparr>employees :=
                             map (\<lambda>e. if e_DepartmentID e = a then e\<lparr>e_DepartmentID := b\<rparr> else e)
                               (employees t)\<rparr>) s1)
                else if filter (\<lambda>e. e_DepartmentID e = a) (employees t) = [] then (None, s1)
                else (Some ErrForeignKey, s1))))"

definition Update_parent_id :: "handle \<Rightarrow> int \<Rightarrow> int \<Rightarrow> db \<Rightarrow> error option \<times> db" where
  "Update_parent_id h a b s =
     (case Department_BeforeSave h zero_Department s of
        ((d1, Some err), s0) \<Rightarrow> (Some err, s0)
      | ((d1, None), s0) \<Rightarrow>
          (case call OpUpdate s0 of
             (Some m, s1) \<Rightarrow> (Some (ErrStore m), s1)
           | (None, s1) \<Rightarrow>
               (let t = view h s1 in
                if fk_ok t (Some b)
                then (None,
                      store h
                        (t\<lparr>departments :=
                             map (\<lambda>r. if sql_eq (row_parent_id r) (Some a)
                                       then r\<lparr>row_parent_id := Some b\<rparr> else r)
                               (departments t)\<rparr>) s1)
                else if filter (\<lambda>r. sql_eq (row_parent_id r) (Some a)) (departments t) = []
                then (None, s1)
                else (Some ErrForeignKey, s1))))"

section \<open>Requests and responses (handlers.go)\<close>

record CreateDepartmentRequest =
  cd_Name :: "rune list"
  cd_ParentID :: "int option"

record UpdateDepartmentRequest =
  ud_Name :: "rune list option"
  ud_ParentID :: "int option"

record CreateEmployeeRequest =
  ce_FullName :: "rune list"
  ce_Position :: "rune list"
  ce_HiredAt :: "int option"

record EmployeeResponse =
  er_ID :: int
  er_DepartmentID :: int
  er_FullName :: "rune list"
  er_Position :: "rune list"
  er_HiredAt :: "int option"
  er_CreatedAt :: int

datatype DepartmentResponse =
  DepartmentResponse (r_ID: int) (r_Name: "rune list") (r_ParentID: "int option")
    (r_CreatedAt: int) (r_Employees: "EmployeeResponse list")
    (r_Children: "DepartmentResponse list")

text \<open>An error message is a literal of the handler or the text of an error value.\<close>

datatype message = Msg string | ErrorText error

datatype body =
  NoBody | ErrorBody message | DepartmentBody Department | EmployeeBody Employee
  | TreeBody DepartmentResponse

record response =
  status :: nat
  body :: body

definition respondJSON :: "nat \<Rightarrow> body \<Rightarrow> response" where
  "respondJSON st b = \<lparr>status = st, body = b\<rparr>"

definition respondError :: "nat \<Rightarrow> message \<Rightarrow> response" where
  "respondError st m = respondJSON st (ErrorBody m)"

text \<open>The answer to a failed \<open>First\<close>: 404 for a missing record, 500 otherwise.\<close>

definition notFoundOr500 :: "error \<Rightarrow> string \<Rightarrow> response" where
  "notFoundOr500 e what =
     (if e = ErrRecordNotFound then respondError 404 (Msg what)
      else respondError 500 (Msg ''database error''))"

section \<open>Creating departments and employees\<close>

text \<open>
  A request body is \<open>None\<close> when the JSON decoder rejects it. \<open>now\<close> is the clock
  reading used for the creation time.
\<close>

definition createDepartment ::
  "int \<Rightarrow> CreateDepartmentRequest option \<Rightarrow> db \<Rightarrow> response \<times> db" where
  "createDepartment now reqbody s =
     (case reqbody of
        None \<Rightarrow> (respondError 400 (Msg ''invalid request body''), s)
      | Some req \<Rightarrow>
          (case (case cd_ParentID req of
                   None \<Rightarrow> (None, s)
                 | Some p \<Rightarrow>
                     (case First DB p s of
                        (Inl e, s1) \<Rightarrow> (Some (notFoundOr500 e ''parent department not found''), s1)
                      | (Inr parent, s1) \<Rightarrow> (None, s1))) of
             (Some r, s1) \<Rightarrow> (r, s1)
           | (None, s1) \<Rightarrow>
               (case Create_Department now
                       (Department 0 (cd_Name req) (cd_ParentID req) 0 [] []) s1 of
                  ((d, Some e), s2) \<Rightarrow> (respondError 400 (ErrorText e), s2)
                | ((d, None), s2) \<Rightarrow> (respondJSON 201 (DepartmentBody d), s2))))"

definition createEmployee ::
  "int \<Rightarrow> string \<Rightarrow> CreateEmployeeRequest option \<Rightarrow> db \<Rightarrow> response \<times> db" where
  "createEmployee now idStr reqbody s =
     (case Atoi idStr of
        None \<Rightarrow> (respondError 400 (Msg ''invalid department id''), s)
      | Some deptID \<Rightarrow>
          (case First DB deptID s of
             (Inl e, s1) \<Rightarrow> (notFoundOr500 e ''department not found'', s1)
           | (Inr dept, s1) \<Rightarrow>
               (case reqbody of
                  None \<Rightarrow> (respondError 400 (Msg ''invalid request body''), s1)
                | Some req \<Rightarrow>
                    (case Create_Employee now
                            \<lparr>e_ID = 0, e_DepartmentID = deptID, e_FullName = ce_FullName req,
                             e_Position = ce_Position req, e_HiredAt = ce_HiredAt req,
                             e_CreatedAt = 0\<rparr> s1 of
                       ((emp, Some e), s2) \<Rightarrow> (respondError 400 (ErrorText e), s2)
                     | ((emp, None), s2) \<Rightarrow> (respondJSON 201 (EmployeeBody emp), s2)))))"

section \<open>Moving a department\<close>

definition updateDepartment ::
  "string \<Rightarrow> UpdateDepartmentRequest option \<Rightarrow> db \<Rightarrow> response \<times> db" where
  "updateDepartment idStr reqbody s =
     (case Atoi idStr of
        None \<Rightarrow> (respondError 400 (Msg ''invalid department id''), s)
      | Some deptID \<Rightarrow>
          (case reqbody of
             None \<Rightarrow> (respondError 400 (Msg ''invalid request body''), s)
           | Some req \<Rightarrow>
               (case First DB deptID s of
                  (Inl e, s1) \<Rightarrow> (notFoundOr500 e ''department not found'', s1)
                | (Inr dept, s1) \<Rightarrow>
                    (case (case ud_ParentID req of
                             None \<Rightarrow> (Inr dept, s1)
                           | Some p \<Rightarrow>
                               (case (if p \<noteq> 0
                                      then (case First DB p s1 of
                                              (Inl e, s2) \<Rightarrow>
                                                (Some (notFoundOr500 e ''parent department not found''), s2)
                                            | (Inr parent, s2) \<Rightarrow> (None, s2))
                                      else (None, s1)) of
                                  (Some r, s2) \<Rightarrow> (Inl r, s2)
                                | (None, s2) \<Rightarrow>
                                    (case CheckCycle dept (Some p) s2 of
                                       (Some e, s3) \<Rightarrow> (Inl (respondError 409 (ErrorText e)), s3)
                                     | (None, s3) \<Rightarrow> (Inr (with_ParentID (Some p) dept), s3)))) of
                       (Inl r, s2) \<Rightarrow> (r, s2)
                     | (Inr dept1, s2) \<Rightarrow>
                         (let dept2 = (case ud_Name req of None \<Rightarrow> dept1
                                       | Some n \<Rightarrow> with_Name n dept1)
                          in case Save_Department dept2 s2 of
                               ((d, Some e), s3) \<Rightarrow> (respondError 400 (ErrorText e), s3)
                             | ((d, None), s3) \<Rightarrow> (respondJSON 200 (DepartmentBody d), s3))))))"

section \<open>Deleting a department\<close>

text \<open>
  The branch \<open>reassignTo = None\<close> under mode \<open>reassign\<close> is the nil dereference that the
  deferred \<open>recover\<close> answers with a rollback and no written response; the guard before
  the first read makes it unreachable.
\<close>

definition finish :: "db \<Rightarrow> response \<times> db" where
  "finish s =
     (case Commit s of
        (Some e, s1) \<Rightarrow> (respondError 500 (ErrorText e), s1)
      | (None, s1) \<Rightarrow> (\<lparr>status = 204, body = NoBody\<rparr>, s1))"

definition reassign :: "Department \<Rightarrow> int \<Rightarrow> int \<Rightarrow> db \<Rightarrow> response \<times> db" where
  "reassign dept deptID target s =
     (case First TX target s of
        (Inl e, s1) \<Rightarrow> (notFoundOr500 e ''reassign target department not found'', Rollback s1)
      | (Inr targetDept, s1) \<Rightarrow>
          (case Update_department_id TX deptID target s1 of
             (Some e, s2) \<Rightarrow> (respondError 500 (ErrorText e), Rollback s2)
           | (None, s2) \<Rightarrow>
               (case Update_parent_id TX deptID target s2 of
                  (Some e, s3) \<Rightarrow> (respondError 500 (ErrorText e), Rollback s3)
                | (None, s3) \<Rightarrow>
                    (case Delete_Department TX dept s3 of
                       (Some e, s4) \<Rightarrow> (respondError 500 (ErrorText e), Rollback s4)
                     | (None, s4) \<Rightarrow> finish s4))))"

definition deleteDepartment :: "string \<Rightarrow> (string \<times> string) list \<Rightarrow> db \<Rightarrow> response \<times> db" where
  "deleteDepartment idStr query s =
     (case Atoi idStr of
        None \<Rightarrow> (respondError 400 (Msg ''invalid department id''), s)
      | Some deptID \<Rightarrow>
          (let mode = (if Query_Get query ''mode'' = [] then ''cascade''
                       else Query_Get query ''mode'');
               reassignToStr = Query_Get query ''reassign_to_department_id''
           in case (if reassignToStr \<noteq> []
                    then (case Atoi reassignToStr of None \<Rightarrow> Inl () | Some v \<Rightarrow> Inr (Some v))
                    else Inr None) of
                Inl u \<Rightarrow> (respondError 400 (Msg ''invalid reassign_to_department_id''), s)
              | Inr reassignTo \<Rightarrow>
                  if mode = ''reassign'' \<and> reassignTo = None
                  then (respondError 400
                          (Msg ''reassign_to_department_id is required for reassign mode''), s)
                  else
                    (case First DB deptID s of
                       (Inl e, s1) \<Rightarrow> (notFoundOr500 e ''department not found'', s1)
                     | (Inr dept, s1) \<Rightarrow>
                         (case Begin s1 of
                            (Some e, s2) \<Rightarrow> (respondError 500 (Msg ''transaction error''), s2)
                          | (None, s2) \<Rightarrow>
                              if mode = ''cascade''
                              then (case Delete_Department TX dept s2 of
                                      (Some e, s3) \<Rightarrow>
                                        (respondError 500 (ErrorText e), Rollback s3)
                                    | (None, s3) \<Rightarrow> finish s3)
                              else if mode = ''reassign''
                              then (case reassignTo of
                                      None \<Rightarrow> (\<lparr>status = 200, body = NoBody\<rparr>, Rollback s2)
                                    | Some target \<Rightarrow> reassign dept deptID target s2)
                              else (respondError 400
                                      (Msg (''mode must be 'cascade' or 'reassign'' @ [CHR 0x27])), s2)))))"

section \<open>Reading a subtree\<close>

text \<open>
  The query parameters of \<open>getDepartment\<close>, each parsed from the value that \<open>Get\<close>
  returns (\<open>None\<close> when the handler answers 400), and the three checks in the order of
  the handler: the answer of the first failing check, or depth, includeEmployees and sortBy.
\<close>

definition parse_depth :: "string \<Rightarrow> int option" where
  "parse_depth d =
     (if d \<noteq> []
      then (case Atoi d of
              None \<Rightarrow> None
            | Some v \<Rightarrow> if v \<ge> 1 \<and> v \<le> 5 then Some v else None)
      else Some 1)"

definition parse_include_employees :: "string \<Rightarrow> bool option" where
  "parse_include_employees ie = (if ie \<noteq> [] then ParseBool ie else Some True)"

definition parse_sort_employees :: "string \<Rightarrow> string option" where
  "parse_sort_employees sortBy =
     (if sortBy = [] then Some ''full_name''
      else if sortBy \<noteq> ''full_name'' \<and> sortBy \<noteq> ''created_at'' then None
      else Some sortBy)"

definition get_params :: "(string \<times> string) list \<Rightarrow> response + (int \<times> bool \<times> string)" where
  "get_params query =
     (case parse_depth (Query_Get query ''depth'') of
        None \<Rightarrow> Inl (respondError 400 (Msg ''depth must be integer between 1 and 5''))
      | Some depth \<Rightarrow>
          (case parse_include_employees (Query_Get query ''include_employees'') of
             None \<Rightarrow> Inl (respondError 400 (Msg ''include_employees must be boolean''))
           | Some includeEmployees \<Rightarrow>
               (case parse_sort_employees (Query_Get query ''sort_employees'') of
                  None \<Rightarrow>
                    Inl (respondError 400
                      (Msg (''sort_employees must be 'full_name' or 'created_at'' @ [CHR 0x27])))
                | Some sortBy \<Rightarrow> Inr (depth, includeEmployees, sortBy))))"

text \<open>
  The in-memory map from id to node, as an association list with distinct keys. Go
  enumerates a map in an order of the runtime's choosing: the handler takes it as the
  parameter \<open>range_order\<close>, from the keys to the sequence in which they are visited.
\<close>

record deptNode =
  n_Department :: Department
  n_Level :: int

type_synonym deptMap = "(int \<times> deptNode) list"

text \<open>
  The level loop: \<open>n\<close> levels are still to be loaded. \<open>Where("parent_id IN ?", ids)\<close>
  returns the matching rows in table order.
\<close>

fun load_levels :: "nat \<Rightarrow> int \<Rightarrow> int list \<Rightarrow> deptMap \<Rightarrow> db \<Rightarrow> deptMap option \<times> db" where
  "load_levels 0 level currentIDs m s = (Some m, s)"
| "load_levels (Suc n) level currentIDs m s =
     (if currentIDs = [] then (Some m, s)
      else (case call OpFind s of
              (Some e, s1) \<Rightarrow> (None, s1)
            | (None, s1) \<Rightarrow>
                (let children =
                       map scan
                         (filter (\<lambda>r. case row_parent_id r of None \<Rightarrow> False
                                       | Some p \<Rightarrow> p \<in> set currentIDs)
                            (departments (committed s1)))
                 in load_levels n (level + 1) (map d_ID children)
                      (fold (\<lambda>child. AList.update (d_ID child)
                                        \<lparr>n_Department = child, n_Level = level\<rparr>)
                         children m)
                      s1)))"

text \<open>
  Linking: the node's record is appended, by value, to the children of its parent's node.
\<close>

definition link_one :: "int \<Rightarrow> deptMap \<Rightarrow> deptMap" where
  "link_one k m =
     (case map_of m k of
        None \<Rightarrow> m
      | Some node \<Rightarrow>
          (case d_ParentID (n_Department node) of
             None \<Rightarrow> m
           | Some pid \<Rightarrow>
               (case map_of m pid of
                  None \<Rightarrow> m
                | Some parent \<Rightarrow>
                    AList.update pid
                      (parent\<lparr>n_Department :=
                          with_Children (d_Children (n_Department parent) @ [n_Department node])
                            (n_Department parent)\<rparr>) m)))"

definition link_children :: "int list \<Rightarrow> deptMap \<Rightarrow> deptMap" where
  "link_children ks m = fold link_one ks m"

text \<open>
  The employees of the loaded departments, ordered by the sort key (code point order for
  names, ties in table order), and their distribution over the nodes.
\<close>

definition Find_Employees :: "int list \<Rightarrow> string \<Rightarrow> db \<Rightarrow> Employee list option \<times> db" where
  "Find_Employees deptIDs sortBy s =
     (case call OpFind s of
        (Some e, s1) \<Rightarrow> (None, s1)
      | (None, s1) \<Rightarrow>
          (let found = filter (\<lambda>e. e_DepartmentID e \<in> set deptIDs) (employees (committed s1))
           in (Some (if sortBy = ''full_name'' then sort_key e_FullName found
                     else sort_key e_CreatedAt found), s1)))"

definition attach_employees :: "Employee list \<Rightarrow> deptMap \<Rightarrow> deptMap" where
  "attach_employees emps m =
     map (\<lambda>(k, node).
            (k, node\<lparr>n_Department :=
                   with_Employees
                     (filter (\<lambda>e. e_DepartmentID e = d_ID (n_Department node)) emps)
                     (n_Department node)\<rparr>)) m"

definition toEmployeeResponse :: "Employee \<Rightarrow> EmployeeResponse" where
  "toEmployeeResponse emp =
     \<lparr>er_ID = e_ID emp, er_DepartmentID = e_DepartmentID emp, er_FullName = e_FullName emp,
      er_Position = e_Position emp, er_HiredAt = e_HiredAt emp, er_CreatedAt = e_CreatedAt emp\<rparr>"

fun toResponse :: "bool \<Rightarrow> int \<Rightarrow> Department \<Rightarrow> int \<Rightarrow> DepartmentResponse" where
  "toResponse includeEmployees depth (Department i n p c children emps) currentDepth =
     DepartmentResponse i n p c
       (if includeEmployees then map toEmployeeResponse emps else [])
       (if currentDepth < depth
        then map (\<lambda>child. toResponse includeEmployees depth child (currentDepth + 1)) children
        else [])"

definition getDepartment ::
  "(int list \<Rightarrow> int list) \<Rightarrow> string \<Rightarrow> (string \<times> string) list \<Rightarrow> db \<Rightarrow> response \<times> db" where
  "getDepartment range_order idStr query s =
     (case Atoi idStr of
        None \<Rightarrow> (respondError 400 (Msg ''invalid department id''), s)
      | Some deptID \<Rightarrow>
          (case get_params query of
             Inl r \<Rightarrow> (r, s)
           | Inr (depth, includeEmployees, sortBy) \<Rightarrow>
               (case First DB deptID s of
                  (Inl e, s1) \<Rightarrow> (notFoundOr500 e ''department not found'', s1)
                | (Inr rootDept, s1) \<Rightarrow>
                    (case load_levels (nat depth) 1 [d_ID rootDept]
                            [(d_ID rootDept, \<lparr>n_Department = rootDept, n_Level = 0\<rparr>)] s1 of
                       (None, s2) \<Rightarrow> (respondError 500 (Msg ''database error''), s2)
                     | (Some loaded, s2) \<Rightarrow>
                         (let linked = link_children (range_order (map fst loaded)) loaded
                          in case (if includeEmployees
                                   then (case Find_Employees (range_order (map fst linked)) sortBy s2 of
                                           (None, s3) \<Rightarrow> (None, s3)
                                         | (Some emps, s3) \<Rightarrow>
                                             (Some (attach_employees emps linked), s3))
                                   else (Some linked, s2)) of
                               (None, s3) \<Rightarrow> (respondError 500 (Msg ''database error''), s3)
                             | (Some deptMap, s3) \<Rightarrow>
                                 (respondJSON 200
                                    (TreeBody (toResponse includeEmployees depth rootDept 0)),
                                  s3))))))"


section \<open>The tree in the table\<close>

text \<open>
  The parent-to-child edges of the departments table: \<open>(a, b)\<close> when some row with id
  \<open>b\<close> has parent \<open>a\<close>. The descendants of \<open>a\<close> are the ids reachable from it.
\<close>

definition child_rel :: "department_row list \<Rightarrow> (int \<times> int) set" where
  "child_rel rows = {(a, b). \<exists>r. r \<in> set rows \<and> row_parent_id r = Some a \<and> row_id r = b}"

text \<open>
  The tables after the delete of department \<open>a\<close> with its cascade.
\<close>

definition cascaded :: "int \<Rightarrow> tables \<Rightarrow> tables" where
  "cascaded a t =
     t\<lparr>departments :=
         filter (\<lambda>r. row_id r \<notin> set (fk_cascade (departments t) [a])) (departments t),
       employees :=
         filter (\<lambda>e. e_DepartmentID e \<notin> set (fk_cascade (departments t) [a])) (employees t)\<rparr>"

text \<open>
  A sample database: departments 1 and 6 are roots, 2 and 3 are children of 1, 4 is the
  child of 2 and 5 the child of 4; one employee each in 1, 2, 4 and 6.
\<close>

definition sample_row :: "int \<Rightarrow> rune list \<Rightarrow> int option \<Rightarrow> department_row" where
  "sample_row i n p = \<lparr>row_id = i, row_name = n, row_parent_id = p, row_created_at = 0\<rparr>"

definition sample_employee :: "int \<Rightarrow> int \<Rightarrow> rune list \<Rightarrow> Employee" where
  "sample_employee i d n =
     \<lparr>e_ID = i, e_DepartmentID = d, e_FullName = n, e_Position = [80], e_HiredAt = None,
      e_CreatedAt = 0\<rparr>"

definition sample_tables :: tables where
  "sample_tables =
     \<lparr>departments =
        [sample_row 1 [65] None, sample_row 2 [66] (Some 1), sample_row 3 [67] (Some 1),
         sample_row 4 [68] (Some 2), sample_row 5 [69] (Some 4), sample_row 6 [70] None],
      employees =
        [sample_employee 1 1 [90], sample_employee 2 2 [89], sample_employee 3 4 [88],
         sample_employee 4 6 [87]],
      departments_id_seq = 7, employees_id_seq = 5\<rparr>"

definition sample_db :: db where
  "sample_db = \<lparr>committed = sample_tables, pending = None, faults = [], calls = []\<rparr>"

section \<open>Basic facts\<close>

lemma length_le_len: "length s \<le> len s"
  unfolding len_def by (induction s) (auto simp: RuneLen_def)

lemma len_0_iff: "len s = 0 \<longleftrightarrow> s = []"
  unfolding len_def by (cases s) (auto simp: RuneLen_def)

lemma respond_simps [simp]:
  "status (respondJSON st b) = st" "body (respondJSON st b) = b"
  "status (respondError st m) = st" "body (respondError st m) = ErrorBody m"
  by (simp_all add: respondJSON_def respondError_def)

lemma status_notFoundOr500 [simp]:
  "status (notFoundOr500 e what) = (if e = ErrRecordNotFound then 404 else 500)"
  by (simp add: notFoundOr500_def)

lemma call_pending: "call c s = (x, s1) \<Longrightarrow> pending s1 = pending s"
  by (auto simp: call_def)

lemma call_faults: "call c s = (x, s1) \<Longrightarrow> faults s1 = tl (faults s)"
  by (auto simp: call_def)

lemma call_no_fault: "set (faults s) \<subseteq> {None} \<Longrightarrow> fst (call c s) = None"
  by (cases "faults s") (auto simp: call_def)

lemma tl_no_fault: "set fs \<subseteq> {None} \<Longrightarrow> set (tl fs) \<subseteq> {None}"
  by (cases fs) auto

lemma First_committed:
  "First h i s = (x, s') \<Longrightarrow> committed s' = committed s \<and> pending s' = pending s"
  by (auto simp: First_def call_def split: prod.splits option.splits list.splits)

section \<open>Validation and trimming\<close>

lemma Department_BeforeSave_name:
  "d_Name (fst (fst (Department_BeforeSave h d s))) = TrimSpace (d_Name d)"
  by (auto simp: Department_BeforeSave_def Let_def with_Name_def split: prod.splits option.splits)

lemma Department_BeforeSave_invalid:
  assumes "TrimSpace (d_Name d) = [] \<or> 200 < length (TrimSpace (d_Name d))"
  shows "snd (fst (Department_BeforeSave h d s)) = Some (ErrNew ''name cannot be empty'') \<or>
         snd (fst (Department_BeforeSave h d s)) = Some (ErrNew ''name too long (max 200)'')"
proof -
  have "len (TrimSpace (d_Name d)) = 0 \<or> 200 < len (TrimSpace (d_Name d))"
    using assms length_le_len [of "TrimSpace (d_Name d)"] by (auto simp: len_0_iff)
  then show ?thesis
    by (auto simp: Department_BeforeSave_def Let_def with_Name_def)
qed

lemma Department_BeforeSave_ok:
  assumes "Department_BeforeSave h d s = ((d', None), s')"
  shows "d' = with_Name (TrimSpace (d_Name d)) d \<and> 1 \<le> length (d_Name d') \<and>
         length (d_Name d') \<le> 200 \<and> committed s' = committed s \<and> pending s' = pending s"
  using assms length_le_len [of "TrimSpace (d_Name d)"]
  by (auto simp: Department_BeforeSave_def Let_def with_Name_def call_def len_0_iff Suc_le_eq
      split: prod.splits option.splits if_splits list.splits)

lemma Department_BeforeSave_committed:
  "Department_BeforeSave h d s = (x, s') \<Longrightarrow> committed s' = committed s"
  by (auto simp: Department_BeforeSave_def Let_def call_def split: if_splits prod.splits option.splits)

lemma Employee_BeforeSave_fullname:
  "e_FullName (fst (Employee_BeforeSave e)) = TrimSpace (e_FullName e)"
  by (simp add: Employee_BeforeSave_def Let_def)

lemma Employee_BeforeSave_ok:
  assumes "Employee_BeforeSave e = (e', None)"
  shows "e' = e\<lparr>e_FullName := TrimSpace (e_FullName e), e_Position := TrimSpace (e_Position e)\<rparr> \<and>
         1 \<le> length (e_FullName e') \<and> length (e_FullName e') \<le> 200 \<and>
         1 \<le> length (e_Position e') \<and> length (e_Position e') \<le> 200"
  using assms length_le_len [of "TrimSpace (e_FullName e)"]
    length_le_len [of "TrimSpace (e_Position e)"]
  by (auto simp: Employee_BeforeSave_def Let_def len_0_iff Suc_le_eq split: if_splits)

lemma Employee_BeforeSave_invalid:
  assumes "TrimSpace (e_FullName e) = [] \<or> 200 < length (TrimSpace (e_FullName e)) \<or>
           TrimSpace (e_Position e) = [] \<or> 200 < length (TrimSpace (e_Position e))"
  shows "\<exists>m. snd (Employee_BeforeSave e) = Some (ErrNew m)"
  using assms length_le_len [of "TrimSpace (e_FullName e)"]
    length_le_len [of "TrimSpace (e_Position e)"]
  by (auto simp: Employee_BeforeSave_def Let_def len_0_iff)

lemma Create_Department_ok:
  assumes "Create_Department now d s = ((d', None), s')"
  shows "d_Name d' = TrimSpace (d_Name d) \<and> 1 \<le> length (d_Name d') \<and>
         length (d_Name d') \<le> 200 \<and>
         departments (committed s') = departments (committed s) @ [row_of d'] \<and>
         employees (committed s') = employees (committed s)"
proof -
  obtain d1 s1 where h: "Department_BeforeSave DB d s = ((d1, None), s1)"
    using assms by (auto simp: Create_Department_def split: prod.splits option.splits)
  from Department_BeforeSave_ok [OF h] assms h show ?thesis
    by (auto simp: Create_Department_def Let_def call_def with_Name_def
        split: prod.splits option.splits if_splits)
qed

lemma Create_Department_err:
  assumes "Create_Department now d s = ((d', Some e), s')"
  shows "committed s' = committed s"
proof (cases "Department_BeforeSave DB d s")
  case (Pair a s1)
  obtain d1 r where a: "a = (d1, r)" by (cases a)
  have c: "committed s1 = committed s"
    using Pair by (rule Department_BeforeSave_committed)
  show ?thesis
  proof (cases r)
    case None
    with assms Pair a c show ?thesis
      by (auto simp: Create_Department_def Let_def call_def
          split: prod.splits option.splits if_splits)
  next
    case (Some e1)
    with assms Pair a have "s' = s1" by (simp add: Create_Department_def)
    with c show ?thesis by simp
  qed
qed

lemma createDepartment_created:
  assumes "createDepartment now (Some req) s = (r, s')" "status r = 201"
  shows "\<exists>d. body r = DepartmentBody d \<and> d_Name d = TrimSpace (cd_Name req) \<and>
             1 \<le> length (d_Name d) \<and> length (d_Name d) \<le> 200 \<and>
             departments (committed s') = departments (committed s) @ [row_of d]"
  using assms
  apply (simp add: createDepartment_def split: option.splits prod.splits sum.splits if_splits)
   apply (auto dest!: Create_Department_ok First_committed split: if_splits)
  done

lemma createDepartment_not_created:
  assumes "createDepartment now reqbody s = (r, s')" "status r \<noteq> 201"
  shows "committed s' = committed s"
  using assms
  apply (simp add: createDepartment_def split: option.splits prod.splits sum.splits if_splits)
   apply (auto dest!: Create_Department_err First_committed split: if_splits)
  done

lemma Create_Employee_ok:
  assumes "Create_Employee now e s = ((e', None), s')"
  shows "e_FullName e' = TrimSpace (e_FullName e) \<and> e_Position e' = TrimSpace (e_Position e) \<and>
         1 \<le> length (e_FullName e') \<and> length (e_FullName e') \<le> 200 \<and>
         1 \<le> length (e_Position e') \<and> length (e_Position e') \<le> 200 \<and>
         employees (committed s') = employees (committed s) @ [e']"
proof -
  obtain e1 where h: "Employee_BeforeSave e = (e1, None)"
    using assms by (auto simp: Create_Employee_def split: prod.splits option.splits)
  from Employee_BeforeSave_ok [OF h] assms h show ?thesis
    by (auto simp: Create_Employee_def Let_def call_def split: prod.splits option.splits if_splits)
qed

lemma Create_Employee_err:
  assumes "Create_Employee now e s = ((e', Some err), s')"
  shows "committed s' = committed s"
  using assms
  by (auto simp: Create_Employee_def Let_def call_def split: prod.splits option.splits if_splits)

lemma createEmployee_created:
  assumes "createEmployee now idStr (Some req) s = (r, s')" "status r = 201"
  shows "\<exists>e. body r = EmployeeBody e \<and> e_FullName e = TrimSpace (ce_FullName req) \<and>
             e_Position e = TrimSpace (ce_Position req) \<and>
             1 \<le> length (e_FullName e) \<and> length (e_FullName e) \<le> 200 \<and>
             1 \<le> length (e_Position e) \<and> length (e_Position e) \<le> 200 \<and>
             employees (committed s') = employees (committed s) @ [e]"
  using assms
  apply (simp add: createEmployee_def split: option.splits prod.splits sum.splits if_splits)
  apply (auto dest!: Create_Employee_ok First_committed split: if_splits)
  done

lemma createEmployee_not_created:
  assumes "createEmployee now idStr reqbody s = (r, s')" "status r \<noteq> 201"
  shows "committed s' = committed s"
  using assms
  apply (simp add: createEmployee_def split: option.splits prod.splits sum.splits if_splits)
     apply (auto dest!: Create_Employee_err First_committed split: if_splits)
  done

lemmas eval_defs = createDepartment_def Create_Department_def Department_BeforeSave_def call_def
  view_def init_db_def sibling_count_def fk_ok_def with_Name_def TrimSpace_def IsSpace_def len_def
  RuneLen_def row_of_def Let_def First_def notFoundOr500_def respondJSON_def respondError_def

text \<open>
  The bound of the hooks is a bound on bytes: a name of 101 two-byte characters (here the
  Cyrillic letter U+0438) has fewer than 200 characters and is refused as too long.
\<close>

lemma len_replicate: "len (replicate n r) = n * RuneLen r"
  by (induction n) (simp_all add: len_def)

lemma TrimSpace_replicate:
  assumes "\<not> IsSpace r"
  shows "TrimSpace (replicate n r) = replicate n r"
proof -
  have "dropWhile IsSpace (replicate n r) = replicate n r"
    using assms by (cases n) simp_all
  then show ?thesis by (simp add: TrimSpace_def)
qed

lemma two_byte_name_refused:
  "length (TrimSpace (replicate 101 1080)) = 101 \<and>
   snd (fst (Department_BeforeSave h (Department 0 (replicate 101 1080) None 0 [] []) s)) =
     Some (ErrNew ''name too long (max 200)'')"
proof -
  have ns: "\<not> IsSpace 1080" by (simp add: IsSpace_def)
  have t: "TrimSpace (replicate 101 1080) = replicate 101 1080"
    by (rule TrimSpace_replicate [OF ns])
  have l: "len (replicate 101 1080) = 202" by (simp add: len_replicate RuneLen_def)
  show ?thesis
    by (simp add: Department_BeforeSave_def Let_def with_Name_def t l)
qed

section \<open>The cycle check\<close>

lemma set_childIDs: "set (childIDs rows a) = child_rel rows `` {a}"
  by (auto simp: childIDs_def child_rel_def)

lemma check_loop_committed:
  "committed (snd (check_loop np queue visited s)) = committed s"
proof (induction np queue visited s rule: check_loop.induct)
  case (1 np visited s)
  then show ?case by simp
next
  case (2 np current queue visited s)
  show ?case
  proof (cases "call OpPluck s")
    case (Pair x s1)
    with 2 call_committed [OF Pair] show ?thesis
      by (cases x) (auto simp del: check_loop.simps(2) simp add: check_loop.simps(2) [of np current queue visited s])
  qed
qed

lemma check_loop_correct:
  assumes "set (faults s) \<subseteq> {None}"
    and "np \<notin> visited" and "a \<in> visited"
    and "\<forall>v \<in> visited. child_rel (departments (committed s)) `` {v} \<subseteq> visited \<union> set queue"
    and "visited \<union> set queue \<subseteq> (child_rel (departments (committed s)))\<^sup>* `` {a}"
  shows "fst (check_loop np queue visited s) =
           (if (a, np) \<in> (child_rel (departments (committed s)))\<^sup>+
            then Some (ErrNew ''cannot move department inside its own subtree'') else None)"
  using assms
proof (induction np queue visited s rule: check_loop.induct)
  case (1 np visited s)
  let ?R = "child_rel (departments (committed s))"
  have closed: "?R `` visited \<subseteq> visited" using 1(4) by auto
  have "?R\<^sup>* `` {a} \<subseteq> visited"
  proof
    fix x assume "x \<in> ?R\<^sup>* `` {a}"
    then have "(a, x) \<in> ?R\<^sup>*" by simp
    then show "x \<in> visited"
      by (induction rule: rtrancl_induct) (use 1(3) closed in auto)
  qed
  then have "(a, np) \<notin> ?R\<^sup>*" using 1(2) by auto
  then have "(a, np) \<notin> ?R\<^sup>+" by (meson trancl_into_rtrancl)
  then show ?case by simp
next
  case (2 np current queue visited s)
  let ?R = "child_rel (departments (committed s))"
  show ?case
  proof (cases "current \<in> visited")
    case True
    have "\<forall>v\<in>visited. ?R `` {v} \<subseteq> visited \<union> set queue"
      using 2(6) True by auto
    moreover have "visited \<union> set queue \<subseteq> ?R\<^sup>* `` {a}" using 2(7) by auto
    ultimately show ?thesis using 2(1) [OF True 2(3) 2(4) 2(5)] True by simp
  next
    case False
    show ?thesis
    proof (cases "current = np")
      case True
      have "(a, np) \<in> ?R\<^sup>*" using 2(7) True by auto
      moreover have "a \<noteq> np" using 2(4) 2(5) by auto
      ultimately have "(a, np) \<in> ?R\<^sup>+" by (metis rtranclD)
      with False True show ?thesis by simp
    next
      case ne: False
      obtain x s1 where c: "call OpPluck s = (x, s1)" by (cases "call OpPluck s")
      have x: "x = None" using call_no_fault [OF 2(3), of OpPluck] c by simp
      have cm: "committed s1 = committed s" using c by (rule call_committed)
      have nf: "set (faults s1) \<subseteq> {None}"
        using call_faults [OF c] tl_no_fault [OF 2(3)] by simp
      have cur: "(a, current) \<in> ?R\<^sup>*" using 2(7) by auto
      have i2: "\<forall>v\<in>insert current visited. child_rel (departments (committed s1)) `` {v}
                  \<subseteq> insert current visited \<union> set (queue @ childIDs (departments (committed s1)) current)"
        using 2(6) by (auto simp: cm set_childIDs)
      have i3: "insert current visited \<union> set (queue @ childIDs (departments (committed s1)) current)
                  \<subseteq> (child_rel (departments (committed s1)))\<^sup>* `` {a}"
        using 2(7) cur by (auto simp: cm set_childIDs intro: rtrancl_into_rtrancl)
      have "fst (check_loop np (queue @ childIDs (departments (committed s1)) current)
                   (insert current visited) s1) =
            (if (a, np) \<in> (child_rel (departments (committed s1)))\<^sup>+
             then Some (ErrNew ''cannot move department inside its own subtree'') else None)"
        using 2(2) [OF False ne c [symmetric] x nf _ _ i2 i3] 2(4) 2(5) ne by auto
      then show ?thesis using False ne c x by (simp add: cm)
    qed
  qed
qed

lemma CheckCycle_committed: "committed (snd (CheckCycle d p s)) = committed s"
proof (cases p)
  case None
  then show ?thesis by (simp add: CheckCycle_def)
next
  case (Some np)
  obtain x s1 where c: "call OpPluck s = (x, s1)" by (cases "call OpPluck s")
  show ?thesis using Some c call_committed [OF c] check_loop_committed [of np _ _ s1]
    by (cases x) (auto simp: CheckCycle_def)
qed

lemma CheckCycle_descendants:
  assumes nf: "set (faults s) \<subseteq> {None}" and ne: "p \<noteq> d_ID d"
  shows "fst (CheckCycle d (Some p) s) =
           (if (d_ID d, p) \<in> (child_rel (departments (committed s)))\<^sup>+
            then Some (ErrNew ''cannot move department inside its own subtree'') else None)"
proof -
  obtain x s1 where c: "call OpPluck s = (x, s1)" by (cases "call OpPluck s")
  have x: "x = None" using call_no_fault [OF nf, of OpPluck] c by simp
  have cm: "committed s1 = committed s" using c by (rule call_committed)
  have nf1: "set (faults s1) \<subseteq> {None}"
    using call_faults [OF c] tl_no_fault [OF nf] by simp
  let ?rows = "departments (committed s1)"
  have "fst (check_loop p (childIDs ?rows (d_ID d)) {d_ID d} s1) =
           (if (d_ID d, p) \<in> (child_rel ?rows)\<^sup>+
            then Some (ErrNew ''cannot move department inside its own subtree'') else None)"
    by (rule check_loop_correct [OF nf1]) (use ne in \<open>auto simp: set_childIDs\<close>)
  then show ?thesis using ne c x by (simp add: CheckCycle_def cm)
qed


lemma view_call [simp]: "view h (snd (call c s)) = view h s"
  by (simp add: view_def call_def split: handle.splits option.splits)

lemma First_found:
  assumes "set (faults s) \<subseteq> {None}" and "i \<in> row_id ` set (departments (view h s))"
  shows "\<exists>r s1. First h i s = (Inr (scan r), s1) \<and> r \<in> set (departments (view h s)) \<and>
           row_id r = i \<and> committed s1 = committed s \<and> pending s1 = pending s \<and>
           set (faults s1) \<subseteq> {None} \<and> calls s1 = calls s @ [OpFirst]"
proof -
  obtain x s1 where c: "call OpFirst s = (x, s1)" by (cases "call OpFirst s")
  have x: "x = None" using call_no_fault [OF assms(1), of OpFirst] c by simp
  have v: "view h s1 = view h s" using view_call [of h OpFirst s] c by simp
  from assms(2) obtain r where r: "find (\<lambda>r. row_id r = i) (departments (view h s)) = Some r"
    by (cases "find (\<lambda>r. row_id r = i) (departments (view h s))") (auto simp: find_None_iff)
  then have "r \<in> set (departments (view h s)) \<and> row_id r = i"
    by (auto simp: find_Some_iff in_set_conv_nth)
  moreover have "First h i s = (Inr (scan r), s1)"
    using c x r v by (simp add: First_def)
  moreover have "set (faults s1) \<subseteq> {None}"
    using call_faults [OF c] tl_no_fault [OF assms(1)] by simp
  moreover have "calls s1 = calls s @ [OpFirst]" using c by (auto simp: call_def)
  ultimately show ?thesis using call_committed [OF c] call_pending [OF c] by blast
qed

lemma First_missing:
  assumes "set (faults s) \<subseteq> {None}" and "i \<notin> row_id ` set (departments (view h s))"
  shows "\<exists>s1. First h i s = (Inl ErrRecordNotFound, s1) \<and> committed s1 = committed s \<and>
           pending s1 = pending s \<and> set (faults s1) \<subseteq> {None} \<and> calls s1 = calls s @ [OpFirst]"
proof -
  obtain x s1 where c: "call OpFirst s = (x, s1)" by (cases "call OpFirst s")
  have x: "x = None" using call_no_fault [OF assms(1), of OpFirst] c by simp
  have v: "view h s1 = view h s" using view_call [of h OpFirst s] c by simp
  have "find (\<lambda>r. row_id r = i) (departments (view h s)) = None"
    using assms(2) by (auto simp: find_None_iff)
  then have "First h i s = (Inl ErrRecordNotFound, s1)"
    using c x v by (simp add: First_def)
  moreover have "set (faults s1) \<subseteq> {None}"
    using call_faults [OF c] tl_no_fault [OF assms(1)] by simp
  moreover have "calls s1 = calls s @ [OpFirst]" using c by (auto simp: call_def)
  ultimately show ?thesis using call_committed [OF c] call_pending [OF c] by blast
qed

lemma d_ID_scan [simp]: "d_ID (scan r) = row_id r"
  by (simp add: scan_def)

lemma updateDepartment_cycle_conflict:
  assumes nf: "set (faults s) \<subseteq> {None}"
    and id: "Atoi idStr = Some i"
    and ex: "i \<in> row_id ` set (departments (committed s))"
    and pex: "p \<in> row_id ` set (departments (committed s))"
    and req: "ud_ParentID req = Some p"
    and cyc: "p = i \<or> (i, p) \<in> (child_rel (departments (committed s)))\<^sup>+"
  shows "status (fst (updateDepartment idStr (Some req) s)) = 409 \<and>
         committed (snd (updateDepartment idStr (Some req) s)) = committed s"
proof -
  from First_found [OF nf, of i DB] ex obtain r s1 where
    f1: "First DB i s = (Inr (scan r), s1)" and ri: "row_id r = i"
    and c1: "committed s1 = committed s" and nf1: "set (faults s1) \<subseteq> {None}"
    by (auto simp: view_def)
  have "\<exists>s2. (if p \<noteq> 0
               then (case First DB p s1 of
                       (Inl e, s2) \<Rightarrow> (Some (notFoundOr500 e ''parent department not found''), s2)
                     | (Inr parent, s2) \<Rightarrow> (None, s2))
               else (None, s1)) = (None, s2) \<and> committed s2 = committed s \<and>
             set (faults s2) \<subseteq> {None}"
  proof (cases "p = 0")
    case True
    then show ?thesis using c1 nf1 by simp
  next
    case False
    from First_found [OF nf1, of p DB] pex c1 obtain r' s2 where
      "First DB p s1 = (Inr (scan r'), s2)" "committed s2 = committed s1"
      "set (faults s2) \<subseteq> {None}"
      by (auto simp: view_def)
    then show ?thesis using False c1 by simp
  qed
  then obtain s2 where
    pc: "(if p \<noteq> 0
          then (case First DB p s1 of
                  (Inl e, s2) \<Rightarrow> (Some (notFoundOr500 e ''parent department not found''), s2)
                | (Inr parent, s2) \<Rightarrow> (None, s2))
          else (None, s1)) = (None, s2)"
    and c2: "committed s2 = committed s" and nf2: "set (faults s2) \<subseteq> {None}"
    by blast
  obtain e s3 where cc: "CheckCycle (scan r) (Some p) s2 = (e, s3)"
    by (cases "CheckCycle (scan r) (Some p) s2")
  have c3: "committed s3 = committed s"
    using CheckCycle_committed [of "scan r" "Some p" s2] cc c2 by simp
  have "e \<noteq> None"
  proof (cases "p = i")
    case True
    then show ?thesis using cc ri by (auto simp: CheckCycle_def)
  next
    case False
    with cyc have "(i, p) \<in> (child_rel (departments (committed s2)))\<^sup>+" by (simp add: c2)
    with CheckCycle_descendants [OF nf2, of p "scan r"] False ri cc show ?thesis by auto
  qed
  then obtain e' where e: "e = Some e'" by auto
  show ?thesis
    using id req f1 pc cc e c3 by (simp add: updateDepartment_def)
qed

text \<open>
  Claim C4. As long as no database call fails, the reparent check of department \<open>d\<close>
  against a proposed parent succeeds for a null parent; fails with "cannot be parent of
  itself" when the parent is \<open>d\<close> itself; fails with "cannot move department inside its
  own subtree" when the parent is reachable from \<open>d\<close> along parent-to-child edges; and
  succeeds otherwise. When both departments exist, the PATCH handler answers such a failure
  with 409 and leaves the tables as they were.
\<close>

theorem CheckCycle_correct:
  assumes "set (faults s) \<subseteq> {None}"
  shows "fst (CheckCycle d None s) = None \<and>
    (p = d_ID d \<longrightarrow>
       fst (CheckCycle d (Some p) s) = Some (ErrNew ''cannot be parent of itself'')) \<and>
    (p \<noteq> d_ID d \<and> (d_ID d, p) \<in> (child_rel (departments (committed s)))\<^sup>+ \<longrightarrow>
       fst (CheckCycle d (Some p) s) =
         Some (ErrNew ''cannot move department inside its own subtree'')) \<and>
    (p \<noteq> d_ID d \<and> (d_ID d, p) \<notin> (child_rel (departments (committed s)))\<^sup>+ \<longrightarrow>
       fst (CheckCycle d (Some p) s) = None) \<and>
    (Atoi idStr = Some (d_ID d) \<and> d_ID d \<in> row_id ` set (departments (committed s)) \<and>
     p \<in> row_id ` set (departments (committed s)) \<and> ud_ParentID req = Some p \<and>
     (p = d_ID d \<or> (d_ID d, p) \<in> (child_rel (departments (committed s)))\<^sup>+) \<longrightarrow>
       status (fst (updateDepartment idStr (Some req) s)) = 409 \<and>
       committed (snd (updateDepartment idStr (Some req) s)) = committed s)"
proof -
  have a: "fst (CheckCycle d None s) = None" by (simp add: CheckCycle_def)
  have b: "p = d_ID d \<longrightarrow>
       fst (CheckCycle d (Some p) s) = Some (ErrNew ''cannot be parent of itself'')"
    by (simp add: CheckCycle_def)
  have c: "p \<noteq> d_ID d \<and> (d_ID d, p) \<in> (child_rel (departments (committed s)))\<^sup>+ \<longrightarrow>
       fst (CheckCycle d (Some p) s) =
         Some (ErrNew ''cannot move department inside its own subtree'')"
    using CheckCycle_descendants [OF assms, of p d] by simp
  have d: "p \<noteq> d_ID d \<and> (d_ID d, p) \<notin> (child_rel (departments (committed s)))\<^sup>+ \<longrightarrow>
       fst (CheckCycle d (Some p) s) = None"
    using CheckCycle_descendants [OF assms, of p d] by simp
  have e: "Atoi idStr = Some (d_ID d) \<and> d_ID d \<in> row_id ` set (departments (committed s)) \<and>
     p \<in> row_id ` set (departments (committed s)) \<and> ud_ParentID req = Some p \<and>
     (p = d_ID d \<or> (d_ID d, p) \<in> (child_rel (departments (committed s)))\<^sup>+) \<longrightarrow>
       status (fst (updateDepartment idStr (Some req) s)) = 409 \<and>
       committed (snd (updateDepartment idStr (Some req) s)) = committed s"
    using updateDepartment_cycle_conflict [OF assms, of idStr "d_ID d" p req] by blast
  from a b c d e show ?thesis by (intro conjI) assumption+
qed

lemma sample_no_faults: "set (faults sample_db) \<subseteq> {None}"
  by (simp add: sample_db_def)

lemma sample_ids:
  "row_id ` set (departments (committed sample_db)) = {1, 2, 3, 4, 5, 6}"
  by (simp add: sample_db_def sample_tables_def sample_row_def)

lemma child_rel_Nil: "child_rel [] = {}"
  by (simp add: child_rel_def)

lemma child_rel_Cons:
  "child_rel (r # rows) =
     (case row_parent_id r of None \<Rightarrow> {} | Some a \<Rightarrow> {(a, row_id r)}) \<union> child_rel rows"
  by (auto simp: child_rel_def split: option.splits)

lemma sample_child_rel:
  "child_rel (departments (committed sample_db)) = {(1, 2), (1, 3), (2, 4), (4, 5)}"
  by (simp add: child_rel_Nil child_rel_Cons sample_db_def sample_tables_def sample_row_def
      insert_commute)


theorem CheckCycle_correct_witness:
  "set (faults sample_db) \<subseteq> {None} \<and>
   (1, 5) \<in> (child_rel (departments (committed sample_db)))\<^sup>+ \<and>
   fst (CheckCycle (scan (sample_row 1 [65] None)) (Some 5) sample_db) =
     Some (ErrNew ''cannot move department inside its own subtree'') \<and>
   (1, 6) \<notin> (child_rel (departments (committed sample_db)))\<^sup>+ \<and>
   fst (CheckCycle (scan (sample_row 1 [65] None)) (Some 6) sample_db) = None \<and>
   fst (CheckCycle (scan (sample_row 1 [65] None)) (Some 1) sample_db) =
     Some (ErrNew ''cannot be parent of itself'') \<and>
   status (fst (updateDepartment ''1'' (Some \<lparr>ud_Name = None, ud_ParentID = Some 5\<rparr>) sample_db)) = 409"
proof -
  let ?R = "child_rel (departments (committed sample_db))"
  let ?d = "scan (sample_row 1 [65] None)"
  have id: "d_ID ?d = 1" by (simp add: sample_row_def scan_def)
  have r15: "(1, 5) \<in> ?R\<^sup>+"
  proof -
    have e: "(1, 2) \<in> ?R" "(2, 4) \<in> ?R" "(4, 5) \<in> ?R" by (simp_all add: sample_child_rel)
    from e(1) have "(1, 2) \<in> ?R\<^sup>+" by (rule r_into_trancl)
    from this e(2) have "(1, 4) \<in> ?R\<^sup>+" by (rule trancl_into_trancl)
    from this e(3) show ?thesis by (rule trancl_into_trancl)
  qed
  have r16: "(1, 6) \<notin> ?R\<^sup>+"
  proof
    assume "(1, 6) \<in> ?R\<^sup>+"
    then have "6 \<in> Range (?R\<^sup>+)" by (rule RangeI)
    then show False by (simp add: sample_child_rel)
  qed
  have at: "Atoi ''1'' = Some 1" by (simp add: Atoi_def digit_def)
  have i1: "1 \<in> row_id ` set (departments (committed sample_db))"
    and i5: "5 \<in> row_id ` set (departments (committed sample_db))"
    by (simp_all add: sample_ids)
  note T5 = CheckCycle_correct [OF sample_no_faults, where d = ?d and p = 5 and idStr = "''1''"
      and req = "\<lparr>ud_Name = None, ud_ParentID = Some 5\<rparr>", unfolded id]
  note T6 = CheckCycle_correct [OF sample_no_faults, where d = ?d and p = 6 and idStr = "''1''"
      and req = "\<lparr>ud_Name = None, ud_ParentID = Some 6\<rparr>", unfolded id]
  note T1 = CheckCycle_correct [OF sample_no_faults, where d = ?d and p = 1 and idStr = "''1''"
      and req = "\<lparr>ud_Name = None, ud_ParentID = Some 1\<rparr>", unfolded id]
  have a: "fst (CheckCycle ?d (Some 5) sample_db) =
     Some (ErrNew ''cannot move department inside its own subtree'')"
    using T5 r15 by simp
  have b: "fst (CheckCycle ?d (Some 6) sample_db) = None"
    using T6 r16 by simp
  have c: "fst (CheckCycle ?d (Some 1) sample_db) = Some (ErrNew ''cannot be parent of itself'')"
    using T1 by simp
  have d: "status (fst (updateDepartment ''1'' (Some \<lparr>ud_Name = None, ud_ParentID = Some 5\<rparr>) sample_db)) = 409"
    using T5 r15 at i1 i5 by simp
  from sample_no_faults r15 a r16 b c d show ?thesis by blast
qed

section \<open>Deleting a department: transactions\<close>

lemma call_result:
  "call c s = (y, s1) \<Longrightarrow>
     committed s1 = committed s \<and> pending s1 = pending s \<and> calls s1 = calls s @ [c] \<and>
     faults s1 = tl (faults s) \<and> view h s1 = view h s"
  by (auto simp: call_def view_def split: handle.splits option.splits)

lemma store_TX [simp]:
  "committed (store TX t s) = committed s" "pending (store TX t s) = Some t"
  "calls (store TX t s) = calls s" "faults (store TX t s) = faults s"
  by (simp_all add: store_def)

lemma Begin_result:
  assumes "Begin s = (x, s')"
  shows "committed s' = committed s \<and> calls s' = calls s @ [OpBegin] \<and> faults s' = tl (faults s) \<and>
     (x = None \<longrightarrow> pending s' = Some (committed s)) \<and> (x \<noteq> None \<longrightarrow> pending s' = pending s)"
proof -
  obtain y s1 where c: "call OpBegin s = (y, s1)" by (cases "call OpBegin s")
  from call_result [OF c] assms c show ?thesis
    by (cases y) (auto simp: Begin_def)
qed

lemma Rollback_result [simp]:
  "committed (Rollback s) = committed s" "pending (Rollback s) = None"
  "calls (Rollback s) = calls s @ [OpRollback]"
  by (simp_all add: Rollback_def)

lemma Commit_result:
  assumes "Commit s = (x, s')"
  shows "pending s' = None \<and> calls s' = calls s @ [OpCommit] \<and>
     (x = None \<longrightarrow> committed s' = view TX s) \<and> (x \<noteq> None \<longrightarrow> committed s' = committed s)"
proof -
  obtain y s1 where c: "call OpCommit s = (y, s1)" by (cases "call OpCommit s")
  from call_result [OF c, of TX] assms c show ?thesis
    by (cases y) (auto simp: Commit_def)
qed

lemma First_calls:
  assumes "First h i s = (x, s')"
  shows "calls s' = calls s @ [OpFirst] \<and> faults s' = tl (faults s)"
proof -
  obtain y s1 where c: "call OpFirst s = (y, s1)" by (cases "call OpFirst s")
  from call_result [OF c, of h] assms c show ?thesis
    by (cases y) (auto simp: First_def split: option.splits)
qed

lemma First_Inr:
  assumes "First h i s = (Inr d, s')"
  shows "d_ID d = i \<and> i \<in> row_id ` set (departments (view h s))"
proof -
  obtain y s1 where c: "call OpFirst s = (y, s1)" by (cases "call OpFirst s")
  from call_result [OF c, of h] assms c show ?thesis
    by (cases y) (auto simp: First_def scan_def find_Some_iff split: option.splits)
qed

lemma Employee_BeforeSave_zero:
  "Employee_BeforeSave zero_Employee = (zero_Employee, Some (ErrNew ''full_name cannot be empty''))"
  by (simp add: Employee_BeforeSave_def zero_Employee_def TrimSpace_def len_def)

lemma Department_BeforeSave_zero:
  "Department_BeforeSave h zero_Department s =
     ((zero_Department, Some (ErrNew ''name cannot be empty'')), s)"
  by (simp add: Department_BeforeSave_def zero_Department_def with_Name_def TrimSpace_def len_def)

text \<open>
  Both bulk updates are refused by the hook of their zero model, whatever the rows, the
  handle and the fault schedule: no statement is sent and the database is as before.
\<close>

lemma Update_department_id_hook:
  "Update_department_id h a b s = (Some (ErrNew ''full_name cannot be empty''), s)"
  by (simp add: Update_department_id_def Employee_BeforeSave_zero)

lemma Update_parent_id_hook:
  "Update_parent_id h a b s = (Some (ErrNew ''name cannot be empty''), s)"
  by (simp add: Update_parent_id_def Department_BeforeSave_zero)

lemma Delete_Department_TX:
  assumes "Delete_Department TX d s = (x, s')"
  shows "committed s' = committed s \<and> calls s' = calls s @ [OpDelete] \<and> faults s' = tl (faults s) \<and>
     (x = None \<and> d_ID d \<in> row_id ` set (departments (view TX s)) \<longrightarrow>
        pending s' = Some ((view TX s)\<lparr>
           departments := filter (\<lambda>r. row_id r \<notin> set (fk_cascade (departments (view TX s)) [d_ID d]))
                            (departments (view TX s)),
           employees := filter (\<lambda>e. e_DepartmentID e \<notin> set (fk_cascade (departments (view TX s)) [d_ID d]))
                            (employees (view TX s))\<rparr>))"
proof -
  obtain y s1 where c: "call OpDelete s = (y, s1)" by (cases "call OpDelete s")
  note r = call_result [OF c, of TX]
  show ?thesis
  proof (cases y)
    case None
    with assms c r show ?thesis
      by (cases "d_ID d \<in> row_id ` set (departments (view TX s))")
        (auto simp: Delete_Department_def Let_def)
  next
    case (Some m)
    with assms c r show ?thesis by (auto simp: Delete_Department_def)
  qed
qed

lemma finish_result:
  assumes "finish s = (r, s')"
  shows "pending s' = None \<and> calls s' = calls s @ [OpCommit] \<and>
         (status r = 204 \<or> status r = 500) \<and>
         (status r = 204 \<longrightarrow> committed s' = view TX s) \<and>
         (status r \<noteq> 204 \<longrightarrow> committed s' = committed s)"
proof -
  obtain x s1 where c: "Commit s = (x, s1)" by (cases "Commit s")
  from Commit_result [OF c] assms c show ?thesis
    by (cases x) (auto simp: finish_def)
qed

lemma no_fault_step: "set (faults s) \<subseteq> {None} \<Longrightarrow> faults s' = tl (faults s) \<Longrightarrow> set (faults s') \<subseteq> {None}"
  using tl_no_fault [of "faults s"] by simp

lemma view_eq: "committed s' = committed s \<Longrightarrow> pending s' = pending s \<Longrightarrow> view h s' = view h s"
  by (cases h) (simp_all add: view_def split: option.splits)

lemma view_TX_pending: "pending s = Some t \<Longrightarrow> view TX s = t"
  by (simp add: view_def)

lemma Delete_Department_ok:
  assumes "set (faults s) \<subseteq> {None}"
  shows "fst (Delete_Department h d s) = None"
  using call_no_fault [OF assms(1), of OpDelete]
  by (cases "call OpDelete s") (auto simp: Delete_Department_def Let_def)

lemma Commit_ok:
  assumes "set (faults s) \<subseteq> {None}"
  shows "fst (Commit s) = None"
  using call_no_fault [OF assms(1), of OpCommit]
  by (cases "call OpCommit s") (auto simp: Commit_def)

lemma Begin_ok:
  assumes "set (faults s) \<subseteq> {None}"
  shows "fst (Begin s) = None"
  using call_no_fault [OF assms(1), of OpBegin]
  by (cases "call OpBegin s") (auto simp: Begin_def)

lemma finish_ok:
  assumes "set (faults s) \<subseteq> {None}"
  shows "status (fst (finish s)) = 204"
  using Commit_ok [OF assms] by (cases "Commit s") (auto simp: finish_def)

lemma reassign_unfold:
  "reassign dept deptID target s =
     (case First TX target s of
        (Inl e, s1) \<Rightarrow> (notFoundOr500 e ''reassign target department not found'', Rollback s1)
      | (Inr targetDept, s1) \<Rightarrow>
          (respondError 500 (ErrorText (ErrNew ''full_name cannot be empty'')), Rollback s1))"
  by (simp add: reassign_def Update_department_id_hook split: prod.splits sum.splits)

lemma reassign_result:
  assumes run: "reassign dept deptID target s = (r, s')"
  shows "pending s' = None \<and> committed s' = committed s \<and> status r \<noteq> 204 \<and>
         calls s' = calls s @ [OpFirst, OpRollback]"
proof -
  obtain x1 s1 where f: "First TX target s = (x1, s1)" by (cases "First TX target s")
  note f1 = First_committed [OF f] First_calls [OF f]
  from run f f1 show ?thesis
    by (cases x1)
      (auto simp: reassign_unfold notFoundOr500_def respondError_def respondJSON_def
         split: if_splits)
qed

lemma Atoi_Nil [simp]: "Atoi [] = None"
  by (simp add: Atoi_def)

lemma fst_finish_ok:
  assumes "set (faults s) \<subseteq> {None}"
  shows "fst (finish s) = \<lparr>status = 204, body = NoBody\<rparr>"
  using Commit_ok [OF assms] by (cases "Commit s") (auto simp: finish_def)

lemma reassign_status:
  assumes nf: "set (faults s) \<subseteq> {None}"
  shows "fst (reassign dept deptID target s) =
           (if target \<in> row_id ` set (departments (view TX s))
            then respondError 500 (ErrorText (ErrNew ''full_name cannot be empty''))
            else respondError 404 (Msg ''reassign target department not found''))"
proof (cases "target \<in> row_id ` set (departments (view TX s))")
  case False
  from First_missing [OF nf False] obtain s1 where
    "First TX target s = (Inl ErrRecordNotFound, s1)" by blast
  then show ?thesis using False by (simp add: reassign_unfold notFoundOr500_def)
next
  case True
  from First_found [OF nf True] obtain r0 s1 where
    f: "First TX target s = (Inr (scan r0), s1)" by blast
  then show ?thesis using True by (simp add: reassign_unfold)
qed

lemma deleteDepartment_reassign_unfold:
  assumes "Atoi idStr = Some D" and "Query_Get query ''mode'' = ''reassign''"
    and "Atoi (Query_Get query ''reassign_to_department_id'') = Some T"
  shows "deleteDepartment idStr query s =
           (case First DB D s of
              (Inl e, s1) \<Rightarrow> (notFoundOr500 e ''department not found'', s1)
            | (Inr dept, s1) \<Rightarrow>
                (case Begin s1 of
                   (Some e, s2) \<Rightarrow> (respondError 500 (Msg ''transaction error''), s2)
                 | (None, s2) \<Rightarrow> reassign dept D T s2))"
proof -
  have "Query_Get query ''reassign_to_department_id'' \<noteq> []"
    using assms(3) by auto
  then show ?thesis using assms
    by (simp add: deleteDepartment_def Let_def split: prod.splits sum.splits option.splits)
qed

lemma deleteDepartment_cascade_unfold:
  assumes "Atoi idStr = Some D"
    and "Query_Get query ''mode'' = [] \<or> Query_Get query ''mode'' = ''cascade''"
    and "Query_Get query ''reassign_to_department_id'' = []"
  shows "deleteDepartment idStr query s =
           (case First DB D s of
              (Inl e, s1) \<Rightarrow> (notFoundOr500 e ''department not found'', s1)
            | (Inr dept, s1) \<Rightarrow>
                (case Begin s1 of
                   (Some e, s2) \<Rightarrow> (respondError 500 (Msg ''transaction error''), s2)
                 | (None, s2) \<Rightarrow>
                     (case Delete_Department TX dept s2 of
                        (Some e, s3) \<Rightarrow> (respondError 500 (ErrorText e), Rollback s3)
                      | (None, s3) \<Rightarrow> finish s3)))"
  using assms
  by (auto simp: deleteDepartment_def Let_def split: prod.splits sum.splits option.splits)


text \<open>
  With no failing database call, the reassign deletion of an existing department is
  answered 500 with the text of the hook's error when the target exists, and 404 when it
  does not; in both cases after the calls \<open>First\<close>, \<open>Begin\<close>, \<open>First\<close>, \<open>Rollback\<close>,
  with the tables as they were.
\<close>

lemma deleteDepartment_reassign_status:
  assumes nf: "set (faults s) \<subseteq> {None}"
    and id: "Atoi idStr = Some D" and mode: "Query_Get query ''mode'' = ''reassign''"
    and to: "Atoi (Query_Get query ''reassign_to_department_id'') = Some T"
    and pn: "pending s = None"
    and dex: "D \<in> row_id ` set (departments (committed s))"
  shows "fst (deleteDepartment idStr query s) =
           (if T \<in> row_id ` set (departments (committed s))
            then respondError 500 (ErrorText (ErrNew ''full_name cannot be empty''))
            else respondError 404 (Msg ''reassign target department not found''))"
    and "committed (snd (deleteDepartment idStr query s)) = committed s"
    and "pending (snd (deleteDepartment idStr query s)) = None"
    and "calls (snd (deleteDepartment idStr query s)) =
           calls s @ [OpFirst, OpBegin, OpFirst, OpRollback]"
proof -
  note u = deleteDepartment_reassign_unfold [OF id mode to, of s]
  from First_found [OF nf, of D DB] dex obtain r0 s1 where
    f: "First DB D s = (Inr (scan r0), s1)" and r0: "row_id r0 = D"
    and c1: "committed s1 = committed s" and nf1: "set (faults s1) \<subseteq> {None}"
    by (auto simp: view_def)
  note f1 = First_calls [OF f]
  obtain x2 s2 where b: "Begin s1 = (x2, s2)" by (cases "Begin s1")
  have x2: "x2 = None" using Begin_ok [OF nf1] b by simp
  note b1 = Begin_result [OF b]
  have nf2: "set (faults s2) \<subseteq> {None}" using no_fault_step [OF nf1] b1 by blast
  have v: "view TX s2 = committed s"
    by (rule view_TX_pending) (use b1 x2 c1 in simp)
  obtain r s' where rr: "reassign (scan r0) D T s2 = (r, s')"
    by (cases "reassign (scan r0) D T s2")
  have run: "deleteDepartment idStr query s = (r, s')"
    using u f b x2 rr by simp
  have "r = (if T \<in> row_id ` set (departments (view TX s2))
            then respondError 500 (ErrorText (ErrNew ''full_name cannot be empty''))
            else respondError 404 (Msg ''reassign target department not found''))"
    using reassign_status [OF nf2, of "scan r0" D T] rr by simp
  then show "fst (deleteDepartment idStr query s) =
           (if T \<in> row_id ` set (departments (committed s))
            then respondError 500 (ErrorText (ErrNew ''full_name cannot be empty''))
            else respondError 404 (Msg ''reassign target department not found''))"
    using run v by simp
  note res = reassign_result [OF rr]
  show "committed (snd (deleteDepartment idStr query s)) = committed s"
    using run res b1 c1 by simp
  show "pending (snd (deleteDepartment idStr query s)) = None"
    using run res by simp
  show "calls (snd (deleteDepartment idStr query s)) =
           calls s @ [OpFirst, OpBegin, OpFirst, OpRollback]"
    using run res b1 f1 by simp
qed

lemma sample_pending: "pending sample_db = None"
  by (simp add: sample_db_def)

lemma Atoi_2: "Atoi ''2'' = Some 2" by (simp add: Atoi_def digit_def)
lemma Atoi_6: "Atoi ''6'' = Some 6" by (simp add: Atoi_def digit_def)
lemma Atoi_7: "Atoi ''7'' = Some 7" by (simp add: Atoi_def digit_def)

text \<open>
  Claim C5. On the sample database, \<open>DELETE /departments/2?mode=reassign&reassign_to_department_id=6\<close>
  (department 2 has one employee and the child 4; department 6 exists) does not reassign
  and does not delete: the first update runs the employee hook on the zero model, which
  refuses the empty full name, so the handler rolls back and answers 500 with that text.
  The tables are those before the request, and the database saw the two reads, \<open>Begin\<close>
  and \<open>Rollback\<close> only. With the missing target 7 the answer is 404, as the claim says.
\<close>

theorem reassign_delete_refused_by_hook:
  "fst (deleteDepartment ''2''
       [(''mode'', ''reassign''), (''reassign_to_department_id'', ''6'')] sample_db) =
     respondError 500 (ErrorText (ErrNew ''full_name cannot be empty'')) \<and>
   committed (snd (deleteDepartment ''2''
       [(''mode'', ''reassign''), (''reassign_to_department_id'', ''6'')] sample_db)) =
     sample_tables \<and>
   pending (snd (deleteDepartment ''2''
       [(''mode'', ''reassign''), (''reassign_to_department_id'', ''6'')] sample_db)) = None \<and>
   calls (snd (deleteDepartment ''2''
       [(''mode'', ''reassign''), (''reassign_to_department_id'', ''6'')] sample_db)) =
     [OpFirst, OpBegin, OpFirst, OpRollback] \<and>
   fst (deleteDepartment ''2''
       [(''mode'', ''reassign''), (''reassign_to_department_id'', ''7'')] sample_db) =
     respondError 404 (Msg ''reassign target department not found'')"
proof -
  let ?q6 = "[(''mode'', ''reassign''), (''reassign_to_department_id'', ''6'')]"
  let ?q7 = "[(''mode'', ''reassign''), (''reassign_to_department_id'', ''7'')]"
  have m6: "Query_Get ?q6 ''mode'' = ''reassign''" and m7: "Query_Get ?q7 ''mode'' = ''reassign''"
    by (simp_all add: Query_Get_def)
  have t6: "Atoi (Query_Get ?q6 ''reassign_to_department_id'') = Some 6"
    and t7: "Atoi (Query_Get ?q7 ''reassign_to_department_id'') = Some 7"
    by (simp_all add: Query_Get_def Atoi_6 Atoi_7)
  have ex: "2 \<in> row_id ` set (departments (committed sample_db))" by (simp add: sample_ids)
  note T6 = deleteDepartment_reassign_status [OF sample_no_faults Atoi_2 m6 t6 sample_pending ex]
  note T7 = deleteDepartment_reassign_status [OF sample_no_faults Atoi_2 m7 t7 sample_pending ex]
  have a: "fst (deleteDepartment ''2'' ?q6 sample_db) =
     respondError 500 (ErrorText (ErrNew ''full_name cannot be empty''))"
    using T6(1) by (simp add: sample_ids)
  have b: "committed (snd (deleteDepartment ''2'' ?q6 sample_db)) = sample_tables"
    using T6(2) by (simp add: sample_db_def)
  have c: "pending (snd (deleteDepartment ''2'' ?q6 sample_db)) = None"
    using T6(3) .
  have d: "calls (snd (deleteDepartment ''2'' ?q6 sample_db)) =
     [OpFirst, OpBegin, OpFirst, OpRollback]"
    using T6(4) by (simp add: sample_db_def)
  have e: "fst (deleteDepartment ''2'' ?q7 sample_db) =
     respondError 404 (Msg ''reassign target department not found'')"
    using T7(1) by (simp add: sample_ids)
  from a b c d e show ?thesis by (intro conjI)
qed



section \<open>Deleting a department: the cascade\<close>

lemma fk_cascade_subset: "set dead \<subseteq> set (fk_cascade rows dead)"
proof (induction rows dead rule: fk_cascade.induct)
  case (1 rows dead)
  show ?case
  proof (cases "filter (\<lambda>r. row_id r \<notin> set dead \<and>
      (case row_parent_id r of None \<Rightarrow> False | Some p \<Rightarrow> p \<in> set dead)) rows")
    case Nil
    then show ?thesis by (subst fk_cascade.simps) simp
  next
    case (Cons v vs)
    from 1 [OF Cons] have "set dead \<subseteq> set (fk_cascade rows (dead @ map row_id (v # vs)))"
      by auto
    then show ?thesis by (subst fk_cascade.simps) (simp add: Cons)
  qed
qed

lemma fk_cascade_closed:
  assumes "r \<in> set rows" and "row_parent_id r = Some p" and "p \<in> set (fk_cascade rows dead)"
  shows "row_id r \<in> set (fk_cascade rows dead)"
  using assms
proof (induction rows dead rule: fk_cascade.induct)
  case (1 rows dead)
  show ?case
  proof (cases "filter (\<lambda>r. row_id r \<notin> set dead \<and>
      (case row_parent_id r of None \<Rightarrow> False | Some p \<Rightarrow> p \<in> set dead)) rows")
    case Nil
    then have res: "fk_cascade rows dead = dead" by (subst fk_cascade.simps) simp
    with 1(4) have p: "p \<in> set dead" by simp
    have "row_id r \<in> set dead"
    proof (rule ccontr)
      assume "row_id r \<notin> set dead"
      with 1(2,3) p have "r \<in> set (filter (\<lambda>r. row_id r \<notin> set dead \<and>
        (case row_parent_id r of None \<Rightarrow> False | Some p \<Rightarrow> p \<in> set dead)) rows)"
        by simp
      with Nil show False by simp
    qed
    with res show ?thesis by simp
  next
    case (Cons v vs)
    have res: "fk_cascade rows dead = fk_cascade rows (dead @ map row_id (v # vs))"
      by (subst fk_cascade.simps) (simp add: Cons)
    from 1(1) [OF Cons 1(2,3)] 1(4) res show ?thesis by simp
  qed
qed

lemma fk_cascade_sound:
  assumes "set dead \<subseteq> (child_rel rows)\<^sup>* `` S"
  shows "set (fk_cascade rows dead) \<subseteq> (child_rel rows)\<^sup>* `` S"
  using assms
proof (induction rows dead rule: fk_cascade.induct)
  case (1 rows dead)
  let ?F = "filter (\<lambda>r. row_id r \<notin> set dead \<and>
      (case row_parent_id r of None \<Rightarrow> False | Some p \<Rightarrow> p \<in> set dead)) rows"
  show ?case
  proof (cases ?F)
    case Nil
    then have "fk_cascade rows dead = dead" by (subst fk_cascade.simps) simp
    with 1(2) show ?thesis by simp
  next
    case (Cons v vs)
    have res: "fk_cascade rows dead = fk_cascade rows (dead @ map row_id (v # vs))"
      by (subst fk_cascade.simps) (simp add: Cons)
    have "set (map row_id (v # vs)) \<subseteq> (child_rel rows)\<^sup>* `` S"
    proof
      fix x assume "x \<in> set (map row_id (v # vs))"
      then obtain r where r: "r \<in> set ?F" "x = row_id r" unfolding Cons [symmetric] by auto
      then obtain p where p: "r \<in> set rows" "row_parent_id r = Some p" "p \<in> set dead"
        by (auto split: option.splits)
      then have "(p, x) \<in> child_rel rows" using r(2) by (auto simp: child_rel_def)
      moreover from p(3) 1(2) obtain a where "a \<in> S" "(a, p) \<in> (child_rel rows)\<^sup>*" by auto
      ultimately show "x \<in> (child_rel rows)\<^sup>* `` S"
        by (auto intro: rtrancl_into_rtrancl)
    qed
    with 1(2) have "set (dead @ map row_id (v # vs)) \<subseteq> (child_rel rows)\<^sup>* `` S" by simp
    from 1(1) [OF Cons this] res show ?thesis by simp
  qed
qed

lemma set_fk_cascade: "set (fk_cascade rows [a]) = (child_rel rows)\<^sup>* `` {a}"
proof
  show "set (fk_cascade rows [a]) \<subseteq> (child_rel rows)\<^sup>* `` {a}"
    by (rule fk_cascade_sound) simp
  show "(child_rel rows)\<^sup>* `` {a} \<subseteq> set (fk_cascade rows [a])"
  proof
    fix x assume "x \<in> (child_rel rows)\<^sup>* `` {a}"
    then have "(a, x) \<in> (child_rel rows)\<^sup>*" by simp
    then show "x \<in> set (fk_cascade rows [a])"
    proof (induction rule: rtrancl_induct)
      case base
      then show ?case using fk_cascade_subset [of "[a]" rows] by simp
    next
      case (step y z)
      from step(2) obtain r where "r \<in> set rows" "row_parent_id r = Some y" "row_id r = z"
        by (auto simp: child_rel_def)
      with fk_cascade_closed [of r rows y "[a]"] step(3) show ?case by auto
    qed
  qed
qed

lemma deleteDepartment_cascade_result:
  assumes nf: "set (faults s) \<subseteq> {None}"
    and id: "Atoi idStr = Some D"
    and mode: "Query_Get query ''mode'' = [] \<or> Query_Get query ''mode'' = ''cascade''"
    and to: "Query_Get query ''reassign_to_department_id'' = []"
    and pn: "pending s = None"
    and dex: "D \<in> row_id ` set (departments (committed s))"
  shows "fst (deleteDepartment idStr query s) = \<lparr>status = 204, body = NoBody\<rparr> \<and>
         committed (snd (deleteDepartment idStr query s)) = cascaded D (committed s)"
proof -
  note u = deleteDepartment_cascade_unfold [OF id mode to, of s]
  from First_found [OF nf, of D DB] dex obtain r0 s1 where
    f: "First DB D s = (Inr (scan r0), s1)" and r0: "row_id r0 = D"
    and c1: "committed s1 = committed s" and nf1: "set (faults s1) \<subseteq> {None}"
    by (auto simp: view_def)
  obtain x2 s2 where b: "Begin s1 = (x2, s2)" by (cases "Begin s1")
  have x2: "x2 = None" using Begin_ok [OF nf1] b by simp
  note b1 = Begin_result [OF b]
  have nf2: "set (faults s2) \<subseteq> {None}" using no_fault_step [OF nf1] b1 by blast
  have v2: "view TX s2 = committed s"
    by (rule view_TX_pending) (use b1 x2 c1 in simp)
  obtain x3 s3 where d: "Delete_Department TX (scan r0) s2 = (x3, s3)"
    by (cases "Delete_Department TX (scan r0) s2")
  have x3: "x3 = None" using Delete_Department_ok [OF nf2, of TX "scan r0"] d by simp
  note r3 = Delete_Department_TX [OF d, unfolded v2]
  have nf3: "set (faults s3) \<subseteq> {None}" using no_fault_step [OF nf2] r3 by blast
  have v3: "view TX s3 = cascaded D (committed s)"
    by (rule view_TX_pending) (use r3 x3 r0 dex in \<open>simp add: cascaded_def\<close>)
  obtain r s' where fin: "finish s3 = (r, s')" by (cases "finish s3")
  have r: "r = \<lparr>status = 204, body = NoBody\<rparr>" using fst_finish_ok [OF nf3] fin by simp
  then have "committed s' = cascaded D (committed s)"
    using finish_result [OF fin] v3 by simp
  then show ?thesis using u f b x2 d x3 fin r by simp
qed

lemma sample_subtree_2:
  "(child_rel (departments (committed sample_db)))\<^sup>* `` {2} = {2, 4, 5}"
  unfolding set_fk_cascade [symmetric]
  by (simp add: fk_cascade.simps sample_db_def sample_tables_def sample_row_def)

text \<open>
  The cascade deletion of an existing department, with no failing database call, leaves
  the rows outside its subtree and the employees of the departments outside it.
\<close>

lemma deleteDepartment_cascade_subtree:
  assumes nf: "set (faults s) \<subseteq> {None}"
    and id: "Atoi idStr = Some D"
    and mode: "Query_Get query ''mode'' = [] \<or> Query_Get query ''mode'' = ''cascade''"
    and to: "Query_Get query ''reassign_to_department_id'' = []"
    and pn: "pending s = None"
    and dex: "D \<in> row_id ` set (departments (committed s))"
  shows "departments (committed (snd (deleteDepartment idStr query s))) =
           filter (\<lambda>r. row_id r \<notin> (child_rel (departments (committed s)))\<^sup>* `` {D})
             (departments (committed s))"
    and "employees (committed (snd (deleteDepartment idStr query s))) =
           filter (\<lambda>e. e_DepartmentID e \<notin> (child_rel (departments (committed s)))\<^sup>* `` {D})
             (employees (committed s))"
  using deleteDepartment_cascade_result [OF nf id mode to pn dex]
  by (simp_all add: cascaded_def set_fk_cascade)

text \<open>
  Claim C9. On the sample database, \<open>DELETE /departments/2?mode=reassign&reassign_to_department_id=2\<close>
  passes the target check (department 2 exists inside the transaction) and is then
  refused like every other reassign deletion: the first update runs the employee hook
  on the zero model, the handler rolls back and answers 500, and the tables are those
  before the request. The cascade deletion of department 2 answers 204 and removes the
  departments 2, 4 and 5 with their employees.
\<close>

theorem reassign_to_self_refused_by_hook:
  "fst (deleteDepartment ''2''
       [(''mode'', ''reassign''), (''reassign_to_department_id'', ''2'')] sample_db) =
     respondError 500 (ErrorText (ErrNew ''full_name cannot be empty'')) \<and>
   committed (snd (deleteDepartment ''2''
       [(''mode'', ''reassign''), (''reassign_to_department_id'', ''2'')] sample_db)) =
     sample_tables \<and>
   calls (snd (deleteDepartment ''2''
       [(''mode'', ''reassign''), (''reassign_to_department_id'', ''2'')] sample_db)) =
     [OpFirst, OpBegin, OpFirst, OpRollback] \<and>
   fst (deleteDepartment ''2'' [(''mode'', ''cascade'')] sample_db) =
     \<lparr>status = 204, body = NoBody\<rparr> \<and>
   departments (committed (snd (deleteDepartment ''2'' [(''mode'', ''cascade'')] sample_db))) =
     [sample_row 1 [65] None, sample_row 3 [67] (Some 1), sample_row 6 [70] None] \<and>
   employees (committed (snd (deleteDepartment ''2'' [(''mode'', ''cascade'')] sample_db))) =
     [sample_employee 1 1 [90], sample_employee 4 6 [87]]"
proof -
  let ?q = "[(''mode'', ''reassign''), (''reassign_to_department_id'', ''2'')]"
  let ?c = "[(''mode'', ''cascade'')]"
  have m: "Query_Get ?q ''mode'' = ''reassign''" by (simp add: Query_Get_def)
  have t: "Atoi (Query_Get ?q ''reassign_to_department_id'') = Some 2"
    by (simp add: Query_Get_def Atoi_2)
  have cm: "Query_Get ?c ''mode'' = [] \<or> Query_Get ?c ''mode'' = ''cascade''"
    by (simp add: Query_Get_def)
  have ct: "Query_Get ?c ''reassign_to_department_id'' = []" by (simp add: Query_Get_def)
  have ex: "2 \<in> row_id ` set (departments (committed sample_db))" by (simp add: sample_ids)
  note R = deleteDepartment_reassign_status [OF sample_no_faults Atoi_2 m t sample_pending ex]
  note C = deleteDepartment_cascade_result [OF sample_no_faults Atoi_2 cm ct sample_pending ex]
  note S = deleteDepartment_cascade_subtree [OF sample_no_faults Atoi_2 cm ct sample_pending ex]
  have a: "fst (deleteDepartment ''2'' ?q sample_db) =
     respondError 500 (ErrorText (ErrNew ''full_name cannot be empty''))"
    using R(1) by (simp add: sample_ids)
  have b: "committed (snd (deleteDepartment ''2'' ?q sample_db)) = sample_tables"
    using R(2) by (simp add: sample_db_def)
  have c: "calls (snd (deleteDepartment ''2'' ?q sample_db)) =
     [OpFirst, OpBegin, OpFirst, OpRollback]"
    using R(4) by (simp add: sample_db_def)
  have d: "fst (deleteDepartment ''2'' ?c sample_db) = \<lparr>status = 204, body = NoBody\<rparr>"
    using C by simp
  have e: "departments (committed (snd (deleteDepartment ''2'' ?c sample_db))) =
     [sample_row 1 [65] None, sample_row 3 [67] (Some 1), sample_row 6 [70] None]"
    using S(1) unfolding sample_subtree_2
    by (simp add: sample_db_def sample_tables_def sample_row_def)
  have f: "employees (committed (snd (deleteDepartment ''2'' ?c sample_db))) =
     [sample_employee 1 1 [90], sample_employee 4 6 [87]]"
    using S(2) unfolding sample_subtree_2
    by (simp add: sample_db_def sample_tables_def sample_employee_def)
  from a b c d e f show ?thesis by (intro conjI)
qed

section \<open>Deleting a department: the mode check\<close>

lemma deleteDepartment_invalid_mode:
  assumes nf: "set (faults s) \<subseteq> {None}" and id: "Atoi idStr = Some D"
    and m1: "Query_Get query ''mode'' \<noteq> []" and m2: "Query_Get query ''mode'' \<noteq> ''cascade''"
    and m3: "Query_Get query ''mode'' \<noteq> ''reassign''"
    and to: "Query_Get query ''reassign_to_department_id'' = []"
  shows "(D \<in> row_id ` set (departments (committed s)) \<longrightarrow>
           status (fst (deleteDepartment idStr query s)) = 400 \<and>
           calls (snd (deleteDepartment idStr query s)) = calls s @ [OpFirst, OpBegin] \<and>
           pending (snd (deleteDepartment idStr query s)) = Some (committed s)) \<and>
         (D \<notin> row_id ` set (departments (committed s)) \<longrightarrow>
           status (fst (deleteDepartment idStr query s)) = 404 \<and>
           calls (snd (deleteDepartment idStr query s)) = calls s @ [OpFirst])"
proof (cases "D \<in> row_id ` set (departments (committed s))")
  case True
  from First_found [OF nf, of D DB] True obtain r0 s1 where
    f: "First DB D s = (Inr (scan r0), s1)" and c1: "committed s1 = committed s"
    and nf1: "set (faults s1) \<subseteq> {None}" and l1: "calls s1 = calls s @ [OpFirst]"
    by (auto simp: view_def)
  obtain x2 s2 where b: "Begin s1 = (x2, s2)" by (cases "Begin s1")
  have x2: "x2 = None" using Begin_ok [OF nf1] b by simp
  note b1 = Begin_result [OF b]
  have "deleteDepartment idStr query s =
      (respondError 400 (Msg (''mode must be 'cascade' or 'reassign'' @ [CHR 0x27])), s2)"
    using id m1 m2 m3 to f b x2 by (simp add: deleteDepartment_def Let_def)
  then show ?thesis using True b1 x2 c1 l1 by simp
next
  case False
  from First_missing [OF nf, of D DB] False obtain s1 where
    f: "First DB D s = (Inl ErrRecordNotFound, s1)" and l1: "calls s1 = calls s @ [OpFirst]"
    by (auto simp: view_def)
  have "deleteDepartment idStr query s =
      (notFoundOr500 ErrRecordNotFound ''department not found'', s1)"
    using id m1 m2 m3 to f by (simp add: deleteDepartment_def Let_def)
  then show ?thesis using False l1 by simp
qed

lemma Atoi_9: "Atoi ''9'' = Some 9" by (simp add: Atoi_def digit_def)

text \<open>
  Claim C2, at the request \<open>DELETE /departments/2?mode=bogus\<close> on the sample database.
  The handler answers 400 only after it has read the department and opened a transaction,
  which it then leaves open (neither committed nor rolled back); for an id that has no row
  the same request is answered 404 after the read.
\<close>

theorem deleteDepartment_invalid_mode_after_read:
  "status (fst (deleteDepartment ''2'' [(''mode'', ''bogus'')] sample_db)) = 400 \<and>
   calls (snd (deleteDepartment ''2'' [(''mode'', ''bogus'')] sample_db)) = [OpFirst, OpBegin] \<and>
   pending (snd (deleteDepartment ''2'' [(''mode'', ''bogus'')] sample_db)) = Some sample_tables \<and>
   status (fst (deleteDepartment ''9'' [(''mode'', ''bogus'')] sample_db)) = 404 \<and>
   calls (snd (deleteDepartment ''9'' [(''mode'', ''bogus'')] sample_db)) = [OpFirst]"
proof -
  let ?q = "[(''mode'', ''bogus'')]"
  have m: "Query_Get ?q ''mode'' \<noteq> []" "Query_Get ?q ''mode'' \<noteq> ''cascade''"
    "Query_Get ?q ''mode'' \<noteq> ''reassign''" "Query_Get ?q ''reassign_to_department_id'' = []"
    by (simp_all add: Query_Get_def)
  have i2: "2 \<in> row_id ` set (departments (committed sample_db))"
    and i9: "9 \<notin> row_id ` set (departments (committed sample_db))"
    by (simp_all add: sample_ids)
  from deleteDepartment_invalid_mode [OF sample_no_faults Atoi_2 m] i2
    deleteDepartment_invalid_mode [OF sample_no_faults Atoi_9 m] i9
  show ?thesis by (simp add: sample_db_def)
qed

section \<open>Reading a subtree\<close>

lemma load_levels_no_fault:
  assumes "set (faults s) \<subseteq> {None}"
  shows "\<exists>m' s'. load_levels n level ids m s = (Some m', s') \<and> set (faults s') \<subseteq> {None} \<and>
           committed s' = committed s"
  using assms
proof (induction n arbitrary: level ids m s)
  case 0
  then show ?case by simp
next
  case (Suc n)
  show ?case
  proof (cases "ids = []")
    case True
    then show ?thesis using Suc.prems by simp
  next
    case False
    obtain y s1 where c: "call OpFind s = (y, s1)" by (cases "call OpFind s")
    have y: "y = None" using call_no_fault [OF Suc.prems, of OpFind] c by simp
    note r = call_result [OF c, of DB]
    have nf1: "set (faults s1) \<subseteq> {None}" using no_fault_step [OF Suc.prems] r by blast
    from Suc.IH [OF nf1] r show ?thesis
      using False c y by (simp add: Let_def)
  qed
qed

lemma Find_Employees_no_fault:
  assumes "set (faults s) \<subseteq> {None}"
  shows "\<exists>emps s'. Find_Employees ids sortBy s = (Some emps, s')"
proof -
  obtain y s1 where c: "call OpFind s = (y, s1)" by (cases "call OpFind s")
  have y: "y = None" using call_no_fault [OF assms, of OpFind] c by simp
  show ?thesis using c y by (simp add: Find_Employees_def Let_def)
qed

lemma toResponse_scan:
  "toResponse inc depth (scan r) 0 =
     DepartmentResponse (row_id r) (row_name r) (row_parent_id r) (row_created_at r) [] []"
  by (simp add: scan_def)

lemma getDepartment_renders_root_only:
  assumes nf: "set (faults s) \<subseteq> {None}" and id: "Atoi idStr = Some i"
    and params: "get_params query = Inr (depth, inc, sortBy)"
    and ex: "i \<in> row_id ` set (departments (committed s))"
  shows "\<exists>r \<in> set (departments (committed s)). row_id r = i \<and>
           fst (getDepartment range_order idStr query s) =
             respondJSON 200 (TreeBody (DepartmentResponse i (row_name r) (row_parent_id r)
               (row_created_at r) [] []))"
proof -
  from First_found [OF nf, of i DB] ex obtain r s1 where
    f: "First DB i s = (Inr (scan r), s1)" and r: "r \<in> set (departments (committed s))"
    and ri: "row_id r = i" and nf1: "set (faults s1) \<subseteq> {None}"
    by (auto simp: view_def)
  from load_levels_no_fault [OF nf1] obtain loaded s2 where
    l: "load_levels (nat depth) 1 [row_id r] [(row_id r, \<lparr>n_Department = scan r, n_Level = 0\<rparr>)] s1
          = (Some loaded, s2)" and nf2: "set (faults s2) \<subseteq> {None}"
    by blast
  let ?linked = "link_children (range_order (map fst loaded)) loaded"
  have "\<exists>dm s3. (if inc
          then (case Find_Employees (range_order (map fst ?linked)) sortBy s2 of
                  (None, s3) \<Rightarrow> (None, s3)
                | (Some emps, s3) \<Rightarrow> (Some (attach_employees emps ?linked), s3))
          else (Some ?linked, s2)) = (Some dm, s3)"
  proof (cases inc)
    case True
    from Find_Employees_no_fault [OF nf2] obtain emps s3 where
      "Find_Employees (range_order (map fst ?linked)) sortBy s2 = (Some emps, s3)" by blast
    then show ?thesis using True by simp
  next
    case False
    then show ?thesis by simp
  qed
  then obtain dm s3 where e: "(if inc
          then (case Find_Employees (range_order (map fst ?linked)) sortBy s2 of
                  (None, s3) \<Rightarrow> (None, s3)
                | (Some emps, s3) \<Rightarrow> (Some (attach_employees emps ?linked), s3))
          else (Some ?linked, s2)) = (Some dm, s3)" by blast
  have "fst (getDepartment range_order idStr query s) =
      respondJSON 200 (TreeBody (toResponse inc depth (scan r) 0))"
    using id params f l e by (simp add: getDepartment_def Let_def)
  then show ?thesis using r ri by (auto simp: toResponse_scan)
qed

lemma Atoi_1: "Atoi ''1'' = Some 1" by (simp add: Atoi_def digit_def)

lemma sample_root_response:
  assumes "get_params query = Inr (depth, inc, sortBy)"
  shows "fst (getDepartment range_order ''1'' query sample_db) =
           respondJSON 200 (TreeBody (DepartmentResponse 1 [65] None 0 [] []))"
proof -
  have ex: "1 \<in> row_id ` set (departments (committed sample_db))" by (simp add: sample_ids)
  from getDepartment_renders_root_only [OF sample_no_faults Atoi_1 assms ex, of range_order]
  obtain r where r: "r \<in> set (departments (committed sample_db))" "row_id r = 1"
    and b: "fst (getDepartment range_order ''1'' query sample_db) =
             respondJSON 200 (TreeBody (DepartmentResponse 1 (row_name r) (row_parent_id r)
               (row_created_at r) [] []))" by blast
  from r have "r = sample_row 1 [65] None"
    by (auto simp: sample_db_def sample_tables_def sample_row_def)
  with b show ?thesis by (simp add: sample_row_def)
qed

lemma sample_children:
  "childIDs (departments (committed sample_db)) 1 = [2, 3]"
  "childIDs (departments (committed sample_db)) 2 = [4]"
  "childIDs (departments (committed sample_db)) 4 = [5]"
  by (simp_all add: childIDs_def sample_db_def sample_tables_def sample_row_def)

text \<open>
  Claim C7, at \<open>GET /departments/1?depth=2\<close> on the sample database, for every order
  in which the runtime enumerates the map. Department 1 has the children 2 and 3 and the
  grandchild 4, all within depth 2, yet the response is department 1 alone, with no
  children: the rendering starts from the record read first, whose children are never
  filled in, not from the linked node of the map.
\<close>

theorem getDepartment_depth_2_renders_no_children:
  "fst (getDepartment range_order ''1'' [(''depth'', ''2'')] sample_db) =
     respondJSON 200 (TreeBody (DepartmentResponse 1 [65] None 0 [] [])) \<and>
   childIDs (departments (committed sample_db)) 1 = [2, 3] \<and>
   childIDs (departments (committed sample_db)) 2 = [4]"
proof -
  have "get_params [(''depth'', ''2'')] = Inr (2, True, ''full_name'')"
    by (simp add: get_params_def parse_depth_def parse_include_employees_def
        parse_sort_employees_def Query_Get_def Atoi_def digit_def)
  from sample_root_response [OF this] sample_children show ?thesis by simp
qed

lemma sample_loaded:
  "fst (load_levels 1 1 [1] [(1, \<lparr>n_Department = scan (sample_row 1 [65] None), n_Level = 0\<rparr>)]
          sample_db) =
     Some [(1, \<lparr>n_Department = scan (sample_row 1 [65] None), n_Level = 0\<rparr>),
           (2, \<lparr>n_Department = scan (sample_row 2 [66] (Some 1)), n_Level = 1\<rparr>),
           (3, \<lparr>n_Department = scan (sample_row 3 [67] (Some 1)), n_Level = 1\<rparr>)]"
  by (simp add: call_def sample_db_def sample_tables_def sample_row_def scan_def Let_def)

lemma sample_linked_insertion_order:
  "map d_ID (d_Children (n_Department (the (map_of
     (link_children [1, 2, 3]
        [(1, \<lparr>n_Department = scan (sample_row 1 [65] None), n_Level = 0\<rparr>),
         (2, \<lparr>n_Department = scan (sample_row 2 [66] (Some 1)), n_Level = 1\<rparr>),
         (3, \<lparr>n_Department = scan (sample_row 3 [67] (Some 1)), n_Level = 1\<rparr>)]) 1)))) = [2, 3]"
  by (simp add: link_children_def link_one_def sample_row_def scan_def with_Children_def)

lemma sample_linked_reverse_order:
  "map d_ID (d_Children (n_Department (the (map_of
     (link_children [3, 2, 1]
        [(1, \<lparr>n_Department = scan (sample_row 1 [65] None), n_Level = 0\<rparr>),
         (2, \<lparr>n_Department = scan (sample_row 2 [66] (Some 1)), n_Level = 1\<rparr>),
         (3, \<lparr>n_Department = scan (sample_row 3 [67] (Some 1)), n_Level = 1\<rparr>)]) 1)))) = [3, 2]"
  by (simp add: link_children_def link_one_def sample_row_def scan_def with_Children_def)

text \<open>
  In the map itself the children of a node are appended in the order in which the map is
  enumerated: enumerating 1, 2, 3 links 2 before 3, enumerating 3, 2, 1 links 3 before 2.
  No response shows this order, since the linked nodes are never rendered.
\<close>

lemma sample_linked_orders:
  "map d_ID (d_Children (n_Department (the (map_of
     (link_children [1, 2, 3] (the (fst (load_levels 1 1 [1]
        [(1, \<lparr>n_Department = scan (sample_row 1 [65] None), n_Level = 0\<rparr>)] sample_db)))) 1)))) = [2, 3]"
  "map d_ID (d_Children (n_Department (the (map_of
     (link_children [3, 2, 1] (the (fst (load_levels 1 1 [1]
        [(1, \<lparr>n_Department = scan (sample_row 1 [65] None), n_Level = 0\<rparr>)] sample_db)))) 1)))) = [3, 2]"
  unfolding sample_loaded option.sel
  by (rule sample_linked_insertion_order, rule sample_linked_reverse_order)









section \<open>Query parameters of the subtree request\<close>

lemma Query_Get_Cons:
  "Query_Get ((k, v) # query) k' = (if k = k' then v else Query_Get query k')"
  by (simp add: Query_Get_def)

lemma get_params_cong:
  assumes "parse_depth (Query_Get query' ''depth'') = parse_depth (Query_Get query ''depth'')"
    and "parse_include_employees (Query_Get query' ''include_employees'') =
         parse_include_employees (Query_Get query ''include_employees'')"
    and "parse_sort_employees (Query_Get query' ''sort_employees'') =
         parse_sort_employees (Query_Get query ''sort_employees'')"
  shows "get_params query' = get_params query"
  unfolding get_params_def assms by (rule refl)

lemma get_params_default_depth:
  assumes "Query_Get query ''depth'' = []"
  shows "get_params ((''depth'', ''1'') # query) = get_params query"
  by (rule get_params_cong) (simp_all add: Query_Get_Cons assms parse_depth_def Atoi_1)

lemma get_params_default_include:
  assumes "Query_Get query ''include_employees'' = []"
  shows "get_params ((''include_employees'', ''true'') # query) = get_params query"
  by (rule get_params_cong)
    (simp_all add: Query_Get_Cons assms parse_include_employees_def ParseBool_def)

lemma get_params_default_sort:
  assumes "Query_Get query ''sort_employees'' = []"
  shows "get_params ((''sort_employees'', ''full_name'') # query) = get_params query"
  by (rule get_params_cong) (simp_all add: Query_Get_Cons assms parse_sort_employees_def)

lemma getDepartment_params:
  "get_params query' = get_params query \<Longrightarrow>
     getDepartment range_order idStr query' s = getDepartment range_order idStr query s"
  by (cases "Atoi idStr") (simp_all add: getDepartment_def)

lemma get_params_Inl:
  "(\<exists>r. get_params query = Inl r \<and> status r = 400) \<longleftrightarrow>
     parse_depth (Query_Get query ''depth'') = None \<or>
     parse_include_employees (Query_Get query ''include_employees'') = None \<or>
     parse_sort_employees (Query_Get query ''sort_employees'') = None"
  by (auto simp: get_params_def split: option.splits)

lemma get_params_Inr:
  "get_params query = Inr (depth, inc, sortBy) \<longleftrightarrow>
     parse_depth (Query_Get query ''depth'') = Some depth \<and>
     parse_include_employees (Query_Get query ''include_employees'') = Some inc \<and>
     parse_sort_employees (Query_Get query ''sort_employees'') = Some sortBy"
  by (auto simp: get_params_def split: option.splits)

lemma getDepartment_rejects:
  assumes "get_params query = Inl r" and "status r = 400"
  shows "status (fst (getDepartment range_order idStr query s)) = 400 \<and>
         snd (getDepartment range_order idStr query s) = s"
  using assms by (cases "Atoi idStr") (simp_all add: getDepartment_def)

text \<open>
  Claim C10. A query parameter is omitted when \<open>Get\<close> returns the empty string for it.
  The handler then behaves exactly as if it had been given \<open>depth=1\<close>,
  \<open>include_employees=true\<close> and \<open>sort_employees=full_name\<close> respectively; with all
  three omitted the parameters are depth 1, employees included, sorted by full name. A
  non-empty depth that is not an integer from 1 to 5, a non-empty include_employees that
  is not a boolean spelling, and a non-empty sort_employees other than full_name and
  created_at are each answered with 400, and the database handle is returned as it was: no
  call has been made on it.
\<close>

theorem getDepartment_defaults:
  "(Query_Get query ''depth'' = [] \<longrightarrow>
      getDepartment range_order idStr query s =
        getDepartment range_order idStr ((''depth'', ''1'') # query) s) \<and>
   (Query_Get query ''include_employees'' = [] \<longrightarrow>
      getDepartment range_order idStr query s =
        getDepartment range_order idStr ((''include_employees'', ''true'') # query) s) \<and>
   (Query_Get query ''sort_employees'' = [] \<longrightarrow>
      getDepartment range_order idStr query s =
        getDepartment range_order idStr ((''sort_employees'', ''full_name'') # query) s) \<and>
   (Query_Get query ''depth'' = [] \<and> Query_Get query ''include_employees'' = [] \<and>
    Query_Get query ''sort_employees'' = [] \<longrightarrow>
      get_params query = Inr (1, True, ''full_name'')) \<and>
   (Query_Get query ''depth'' \<noteq> [] \<and>
    (\<forall>v. Atoi (Query_Get query ''depth'') = Some v \<longrightarrow> v < 1 \<or> 5 < v) \<longrightarrow>
      status (fst (getDepartment range_order idStr query s)) = 400 \<and>
      snd (getDepartment range_order idStr query s) = s) \<and>
   (Query_Get query ''include_employees'' \<noteq> [] \<and>
    ParseBool (Query_Get query ''include_employees'') = None \<longrightarrow>
      status (fst (getDepartment range_order idStr query s)) = 400 \<and>
      snd (getDepartment range_order idStr query s) = s) \<and>
   (Query_Get query ''sort_employees'' \<noteq> [] \<and>
    Query_Get query ''sort_employees'' \<noteq> ''full_name'' \<and>
    Query_Get query ''sort_employees'' \<noteq> ''created_at'' \<longrightarrow>
      status (fst (getDepartment range_order idStr query s)) = 400 \<and>
      snd (getDepartment range_order idStr query s) = s)"
proof -
  have rej: "status (fst (getDepartment range_order idStr query s)) = 400 \<and>
      snd (getDepartment range_order idStr query s) = s"
    if "parse_depth (Query_Get query ''depth'') = None \<or>
        parse_include_employees (Query_Get query ''include_employees'') = None \<or>
        parse_sort_employees (Query_Get query ''sort_employees'') = None"
  proof -
    from that get_params_Inl [of query] obtain r where
      "get_params query = Inl r" "status r = 400" by blast
    then show ?thesis by (rule getDepartment_rejects)
  qed
  have a: "Query_Get query ''depth'' = [] \<longrightarrow>
      getDepartment range_order idStr query s =
        getDepartment range_order idStr ((''depth'', ''1'') # query) s"
    using getDepartment_params [OF get_params_default_depth, of query range_order idStr s]
    by simp
  have b: "Query_Get query ''include_employees'' = [] \<longrightarrow>
      getDepartment range_order idStr query s =
        getDepartment range_order idStr ((''include_employees'', ''true'') # query) s"
    using getDepartment_params [OF get_params_default_include, of query range_order idStr s]
    by simp
  have c: "Query_Get query ''sort_employees'' = [] \<longrightarrow>
      getDepartment range_order idStr query s =
        getDepartment range_order idStr ((''sort_employees'', ''full_name'') # query) s"
    using getDepartment_params [OF get_params_default_sort, of query range_order idStr s]
    by simp
  have d: "Query_Get query ''depth'' = [] \<and> Query_Get query ''include_employees'' = [] \<and>
    Query_Get query ''sort_employees'' = [] \<longrightarrow>
      get_params query = Inr (1, True, ''full_name'')"
    by (simp add: get_params_Inr parse_depth_def parse_include_employees_def
        parse_sort_employees_def)
  have e: "Query_Get query ''depth'' \<noteq> [] \<and>
    (\<forall>v. Atoi (Query_Get query ''depth'') = Some v \<longrightarrow> v < 1 \<or> 5 < v) \<longrightarrow>
      status (fst (getDepartment range_order idStr query s)) = 400 \<and>
      snd (getDepartment range_order idStr query s) = s"
  proof (intro impI, elim conjE)
    assume "Query_Get query ''depth'' \<noteq> []"
      and "\<forall>v. Atoi (Query_Get query ''depth'') = Some v \<longrightarrow> v < 1 \<or> 5 < v"
    then have "parse_depth (Query_Get query ''depth'') = None"
      by (cases "Atoi (Query_Get query ''depth'')") (auto simp: parse_depth_def)
    then show "status (fst (getDepartment range_order idStr query s)) = 400 \<and>
      snd (getDepartment range_order idStr query s) = s" using rej by blast
  qed
  have f: "Query_Get query ''include_employees'' \<noteq> [] \<and>
    ParseBool (Query_Get query ''include_employees'') = None \<longrightarrow>
      status (fst (getDepartment range_order idStr query s)) = 400 \<and>
      snd (getDepartment range_order idStr query s) = s"
    using rej by (simp add: parse_include_employees_def)
  have g: "Query_Get query ''sort_employees'' \<noteq> [] \<and>
    Query_Get query ''sort_employees'' \<noteq> ''full_name'' \<and>
    Query_Get query ''sort_employees'' \<noteq> ''created_at'' \<longrightarrow>
      status (fst (getDepartment range_order idStr query s)) = 400 \<and>
      snd (getDepartment range_order idStr query s) = s"
    using rej by (simp add: parse_sort_employees_def)
  from a b c d e f g show ?thesis by (intro conjI) assumption+
qed

theorem getDepartment_defaults_witness:
  "get_params [] = Inr (1, True, ''full_name'') \<and>
   getDepartment id ''1'' [] sample_db = getDepartment id ''1'' [(''depth'', ''1'')] sample_db \<and>
   status (fst (getDepartment id ''1'' [(''depth'', ''6'')] sample_db)) = 400 \<and>
   snd (getDepartment id ''1'' [(''depth'', ''6'')] sample_db) = sample_db \<and>
   status (fst (getDepartment id ''1'' [(''include_employees'', ''maybe'')] sample_db)) = 400 \<and>
   status (fst (getDepartment id ''1'' [(''sort_employees'', ''name'')] sample_db)) = 400"
proof -
  have q0: "Query_Get [] k = []" for k by (simp add: Query_Get_def)
  have a6: "Atoi ''6'' = Some 6" by (rule Atoi_6)
  note T0 = getDepartment_defaults [where query = "[]" and range_order = id and idStr = "''1''"
      and s = sample_db]
  note T6 = getDepartment_defaults [where query = "[(''depth'', ''6'')]" and range_order = id
      and idStr = "''1''" and s = sample_db]
  note Ti = getDepartment_defaults [where query = "[(''include_employees'', ''maybe'')]"
      and range_order = id and idStr = "''1''" and s = sample_db]
  note Ts = getDepartment_defaults [where query = "[(''sort_employees'', ''name'')]"
      and range_order = id and idStr = "''1''" and s = sample_db]
  have a: "get_params [] = Inr (1, True, ''full_name'')"
    by (rule T0 [THEN conjunct2, THEN conjunct2, THEN conjunct2, THEN conjunct1, THEN mp])
      (simp add: q0)
  have b: "getDepartment id ''1'' [] sample_db = getDepartment id ''1'' [(''depth'', ''1'')] sample_db"
    by (rule T0 [THEN conjunct1, THEN mp]) (simp add: q0)
  have c: "status (fst (getDepartment id ''1'' [(''depth'', ''6'')] sample_db)) = 400 \<and>
           snd (getDepartment id ''1'' [(''depth'', ''6'')] sample_db) = sample_db"
    by (rule T6 [THEN conjunct2, THEN conjunct2, THEN conjunct2, THEN conjunct2, THEN conjunct1,
          THEN mp])
      (simp add: Query_Get_def a6)
  have d: "status (fst (getDepartment id ''1'' [(''include_employees'', ''maybe'')] sample_db)) = 400"
    by (rule Ti [THEN conjunct2, THEN conjunct2, THEN conjunct2, THEN conjunct2, THEN conjunct2,
          THEN conjunct1, THEN mp, THEN conjunct1])
      (simp add: Query_Get_def ParseBool_def)
  have e: "status (fst (getDepartment id ''1'' [(''sort_employees'', ''name'')] sample_db)) = 400"
    by (rule Ts [THEN conjunct2, THEN conjunct2, THEN conjunct2, THEN conjunct2, THEN conjunct2,
          THEN conjunct2, THEN mp, THEN conjunct1])
      (simp add: Query_Get_def)
  from a b c d e show ?thesis by blast
qed

section \<open>Sibling names\<close>

lemma Department_BeforeSave_duplicate:
  assumes nf: "set (faults s) \<subseteq> {None}"
    and par: "d_ParentID d = Some p" and new: "d_ID d = 0"
    and dup: "r \<in> set (departments (view h s))" "row_name r = TrimSpace (d_Name d)"
      "row_parent_id r = Some p"
  shows "snd (fst (Department_BeforeSave h d s)) \<noteq> None"
proof -
  obtain y s1 where c: "call OpCount s = (y, s1)" by (cases "call OpCount s")
  have y: "y = None" using call_no_fault [OF nf, of OpCount] c by simp
  have v: "view h s1 = view h s" using call_result [OF c, of h] by simp
  let ?d1 = "with_Name (TrimSpace (d_Name d)) d"
  have "r \<in> set (filter (\<lambda>r. row_name r = d_Name ?d1 \<and> sql_eq (row_parent_id r) (d_ParentID ?d1) \<and>
                          (if d_ID ?d1 \<noteq> 0 then row_id r \<noteq> d_ID ?d1 else True))
               (departments (view h s)))"
    using dup par new by (simp add: with_Name_def)
  then have "0 < sibling_count (view h s) ?d1"
    unfolding sibling_count_def by (rule length_pos_if_in_set)
  then show ?thesis using c y v
    by (simp add: Department_BeforeSave_def Let_def)
qed

lemma createDepartment_duplicate_sibling_rejected:
  assumes nf: "set (faults s) \<subseteq> {None}"
    and par: "cd_ParentID req = Some p"
    and pex: "p \<in> row_id ` set (departments (committed s))"
    and dup: "r \<in> set (departments (committed s))" "row_name r = TrimSpace (cd_Name req)"
      "row_parent_id r = Some p"
  shows "status (fst (createDepartment now (Some req) s)) = 400 \<and>
         committed (snd (createDepartment now (Some req) s)) = committed s"
proof -
  from First_found [OF nf, of p DB] pex obtain r0 s1 where
    f: "First DB p s = (Inr (scan r0), s1)" and c1: "committed s1 = committed s"
    and nf1: "set (faults s1) \<subseteq> {None}"
    by (auto simp: view_def)
  let ?d = "Department 0 (cd_Name req) (Some p) 0 [] []"
  obtain d1 e s2 where b: "Department_BeforeSave DB ?d s1 = ((d1, e), s2)"
    by (cases "Department_BeforeSave DB ?d s1") auto
  have "e \<noteq> None"
    using Department_BeforeSave_duplicate [OF nf1, of ?d p r DB] dup c1 b
    by (simp add: view_def)
  then obtain e' where e: "e = Some e'" by auto
  have "Create_Department now ?d s1 = ((d1, Some e'), s2)"
    using b e by (simp add: Create_Department_def)
  then have st: "status (fst (createDepartment now (Some req) s)) = 400"
    using par f by (simp add: createDepartment_def)
  obtain rr s' where run: "createDepartment now (Some req) s = (rr, s')"
    by (cases "createDepartment now (Some req) s")
  from createDepartment_not_created [OF run] st run show ?thesis by simp
qed

lemma create_root_first:
  "createDepartment 1 (Some \<lparr>cd_Name = [73, 84], cd_ParentID = None\<rparr>) init_db =
   (\<lparr>status = 201, body = DepartmentBody (Department 1 [73, 84] None 1 [] [])\<rparr>,
    \<lparr>committed =
       \<lparr>departments =
          [\<lparr>row_id = 1, row_name = [73, 84], row_parent_id = None, row_created_at = 1\<rparr>],
        employees = [], departments_id_seq = 2, employees_id_seq = 1\<rparr>,
     pending = None, faults = [], calls = [OpCount, OpCreate]\<rparr>)"
  by (simp add: eval_defs)

lemma create_root_second:
  "createDepartment 2 (Some \<lparr>cd_Name = [73, 84], cd_ParentID = None\<rparr>)
     \<lparr>committed =
        \<lparr>departments =
           [\<lparr>row_id = 1, row_name = [73, 84], row_parent_id = None, row_created_at = 1\<rparr>],
         employees = [], departments_id_seq = 2, employees_id_seq = 1\<rparr>,
      pending = None, faults = [], calls = [OpCount, OpCreate]\<rparr> =
   (\<lparr>status = 201, body = DepartmentBody (Department 2 [73, 84] None 2 [] [])\<rparr>,
    \<lparr>committed =
       \<lparr>departments =
          [\<lparr>row_id = 1, row_name = [73, 84], row_parent_id = None, row_created_at = 1\<rparr>,
           \<lparr>row_id = 2, row_name = [73, 84], row_parent_id = None, row_created_at = 2\<rparr>],
        employees = [], departments_id_seq = 3, employees_id_seq = 1\<rparr>,
     pending = None, faults = [], calls = [OpCount, OpCreate, OpCount, OpCreate]\<rparr>)"
  by (simp add: eval_defs)

text \<open>
  Claim C1, at the root scope. Under a parent that is not null a second department of the
  same trimmed name is refused with 400 and the tables stay as they were (the lemma
  above). On the empty database, however, creating the root department "IT" twice succeeds
  both times: the sibling query compares \<open>parent_id\<close> with NULL, which no row
  satisfies, so the second request is answered 201 and the table holds two root rows of
  the same name.
\<close>

theorem createDepartment_root_duplicate_accepted:
  "status (fst (createDepartment 1 (Some \<lparr>cd_Name = [73, 84], cd_ParentID = None\<rparr>) init_db)) = 201 \<and>
   status (fst (createDepartment 2 (Some \<lparr>cd_Name = [73, 84], cd_ParentID = None\<rparr>)
     (snd (createDepartment 1 (Some \<lparr>cd_Name = [73, 84], cd_ParentID = None\<rparr>) init_db)))) = 201 \<and>
   departments (committed (snd (createDepartment 2 (Some \<lparr>cd_Name = [73, 84], cd_ParentID = None\<rparr>)
     (snd (createDepartment 1 (Some \<lparr>cd_Name = [73, 84], cd_ParentID = None\<rparr>) init_db))))) =
     [\<lparr>row_id = 1, row_name = [73, 84], row_parent_id = None, row_created_at = 1\<rparr>,
      \<lparr>row_id = 2, row_name = [73, 84], row_parent_id = None, row_created_at = 2\<rparr>]"
  by (simp add: create_root_first create_root_second)

section \<open>Validation and trimming: accepted records\<close>

lemma Employee_BeforeSave_position:
  "e_Position (fst (Employee_BeforeSave e)) =
     (if TrimSpace (e_FullName e) \<noteq> [] \<and> len (TrimSpace (e_FullName e)) \<le> 200
      then TrimSpace (e_Position e) else e_Position e)"
  by (auto simp: Employee_BeforeSave_def Let_def len_0_iff)

lemma Employee_BeforeSave_accepts:
  assumes "TrimSpace (e_FullName e) \<noteq> []" "len (TrimSpace (e_FullName e)) \<le> 200"
    and "TrimSpace (e_Position e) \<noteq> []" "len (TrimSpace (e_Position e)) \<le> 200"
  shows "Employee_BeforeSave e =
           (e\<lparr>e_FullName := TrimSpace (e_FullName e), e_Position := TrimSpace (e_Position e)\<rparr>,
            None)"
  using assms by (simp add: Employee_BeforeSave_def Let_def len_0_iff)

lemma Employee_BeforeSave_None_iff:
  "snd (Employee_BeforeSave e) = None \<longleftrightarrow>
     TrimSpace (e_FullName e) \<noteq> [] \<and> len (TrimSpace (e_FullName e)) \<le> 200 \<and>
     TrimSpace (e_Position e) \<noteq> [] \<and> len (TrimSpace (e_Position e)) \<le> 200"
  by (auto simp: Employee_BeforeSave_def Let_def len_0_iff)

lemma no_duplicate_sibling_count:
  assumes "\<forall>r \<in> set (departments t). \<not> (row_name r = d_Name d \<and> row_parent_id r = d_ParentID d)"
  shows "sibling_count t d = 0"
proof -
  have "\<And>r. r \<in> set (departments t) \<Longrightarrow>
      \<not> (row_name r = d_Name d \<and> sql_eq (row_parent_id r) (d_ParentID d))"
    using assms by (cases "d_ParentID d") auto
  then show ?thesis by (auto simp: sibling_count_def filter_empty_conv)
qed

lemma Department_BeforeSave_accepts:
  assumes nf: "set (faults s) \<subseteq> {None}"
    and ne: "TrimSpace (d_Name d) \<noteq> []" and le: "len (TrimSpace (d_Name d)) \<le> 200"
    and nd: "sibling_count (view h s) (with_Name (TrimSpace (d_Name d)) d) = 0"
  shows "\<exists>s1. Department_BeforeSave h d s = ((with_Name (TrimSpace (d_Name d)) d, None), s1) \<and>
           committed s1 = committed s \<and> set (faults s1) \<subseteq> {None}"
proof -
  obtain x s1 where c: "call OpCount s = (x, s1)" by (cases "call OpCount s")
  have x: "x = None" using call_no_fault [OF nf, of OpCount] c by simp
  have v: "view h s1 = view h s" using view_call [of h OpCount s] c by simp
  have n: "d_Name (with_Name (TrimSpace (d_Name d)) d) = TrimSpace (d_Name d)"
    by (simp add: with_Name_def)
  have "Department_BeforeSave h d s = ((with_Name (TrimSpace (d_Name d)) d, None), s1)"
    using c x v ne le nd by (simp add: Department_BeforeSave_def Let_def n len_0_iff)
  moreover have "set (faults s1) \<subseteq> {None}"
    using call_faults [OF c] tl_no_fault [OF nf] by simp
  ultimately show ?thesis using call_committed [OF c] by blast
qed

lemma createDepartment_accepts:
  assumes nf: "set (faults s) \<subseteq> {None}"
    and par: "fk_ok (committed s) (cd_ParentID req)"
    and ne: "TrimSpace (cd_Name req) \<noteq> []" and le: "len (TrimSpace (cd_Name req)) \<le> 200"
    and nd: "\<forall>r \<in> set (departments (committed s)).
               \<not> (row_name r = TrimSpace (cd_Name req) \<and> row_parent_id r = cd_ParentID req)"
  shows "fst (createDepartment now (Some req) s) =
           respondJSON 201 (DepartmentBody
             (Department (departments_id_seq (committed s)) (TrimSpace (cd_Name req))
                (cd_ParentID req) now [] []))"
    and "departments (committed (snd (createDepartment now (Some req) s))) =
           departments (committed s) @
             [\<lparr>row_id = departments_id_seq (committed s), row_name = TrimSpace (cd_Name req),
               row_parent_id = cd_ParentID req, row_created_at = now\<rparr>]"
proof -
  let ?d = "Department 0 (cd_Name req) (cd_ParentID req) 0 [] []"
  let ?d1 = "with_Name (TrimSpace (cd_Name req)) ?d"
  obtain s1 where p: "(case cd_ParentID req of
                   None \<Rightarrow> (None, s)
                 | Some p \<Rightarrow>
                     (case First DB p s of
                        (Inl e, s1) \<Rightarrow> (Some (notFoundOr500 e ''parent department not found''), s1)
                      | (Inr parent, s1) \<Rightarrow> (None, s1))) = (None, s1)"
    and c1: "committed s1 = committed s" and nf1: "set (faults s1) \<subseteq> {None}"
  proof (cases "cd_ParentID req")
    case None
    with nf that show ?thesis by simp
  next
    case (Some p)
    then have "p \<in> row_id ` set (departments (view DB s))"
      using par by (simp add: fk_ok_def view_def)
    from First_found [OF nf this] obtain r0 s1 where
      "First DB p s = (Inr (scan r0), s1)" "committed s1 = committed s"
      "set (faults s1) \<subseteq> {None}" by blast
    with Some that show ?thesis by simp
  qed
  have "sibling_count (view DB s1) ?d1 = 0"
    by (rule no_duplicate_sibling_count) (use nd c1 in \<open>simp add: view_def with_Name_def\<close>)
  with Department_BeforeSave_accepts [OF nf1, of ?d DB] ne le obtain s2 where
    h: "Department_BeforeSave DB ?d s1 = ((?d1, None), s2)"
    and c2: "committed s2 = committed s1" and nf2: "set (faults s2) \<subseteq> {None}"
    by auto
  obtain x s3 where c: "call OpCreate s2 = (x, s3)" by (cases "call OpCreate s2")
  have x: "x = None" using call_no_fault [OF nf2, of OpCreate] c by simp
  have c3: "committed s3 = committed s" using call_committed [OF c] c2 c1 by simp
  have fk: "fk_ok (committed s3) (cd_ParentID req)" using par c3 by simp
  have cr: "Create_Department now ?d s1 =
      ((Department (departments_id_seq (committed s)) (TrimSpace (cd_Name req))
          (cd_ParentID req) now [] [], None),
       s3\<lparr>committed := (committed s)\<lparr>departments := departments (committed s) @
            [\<lparr>row_id = departments_id_seq (committed s), row_name = TrimSpace (cd_Name req),
              row_parent_id = cd_ParentID req, row_created_at = now\<rparr>],
            departments_id_seq := departments_id_seq (committed s) + 1\<rparr>\<rparr>)"
    using h c x c3 fk by (simp add: Create_Department_def Let_def with_Name_def row_of_def)
  show "fst (createDepartment now (Some req) s) =
           respondJSON 201 (DepartmentBody
             (Department (departments_id_seq (committed s)) (TrimSpace (cd_Name req))
                (cd_ParentID req) now [] []))"
    using p cr by (simp add: createDepartment_def)
  show "departments (committed (snd (createDepartment now (Some req) s))) =
           departments (committed s) @
             [\<lparr>row_id = departments_id_seq (committed s), row_name = TrimSpace (cd_Name req),
               row_parent_id = cd_ParentID req, row_created_at = now\<rparr>]"
    using p cr by (simp add: createDepartment_def)
qed

lemma createEmployee_accepts:
  assumes nf: "set (faults s) \<subseteq> {None}"
    and id: "Atoi idStr = Some D" and dex: "D \<in> row_id ` set (departments (committed s))"
    and fn: "TrimSpace (ce_FullName req) \<noteq> []" "len (TrimSpace (ce_FullName req)) \<le> 200"
    and pos: "TrimSpace (ce_Position req) \<noteq> []" "len (TrimSpace (ce_Position req)) \<le> 200"
  shows "fst (createEmployee now idStr (Some req) s) =
           respondJSON 201 (EmployeeBody
             \<lparr>e_ID = employees_id_seq (committed s), e_DepartmentID = D,
              e_FullName = TrimSpace (ce_FullName req), e_Position = TrimSpace (ce_Position req),
              e_HiredAt = ce_HiredAt req, e_CreatedAt = now\<rparr>)"
    and "employees (committed (snd (createEmployee now idStr (Some req) s))) =
           employees (committed s) @
             [\<lparr>e_ID = employees_id_seq (committed s), e_DepartmentID = D,
               e_FullName = TrimSpace (ce_FullName req), e_Position = TrimSpace (ce_Position req),
               e_HiredAt = ce_HiredAt req, e_CreatedAt = now\<rparr>]"
proof -
  let ?e = "\<lparr>e_ID = 0, e_DepartmentID = D, e_FullName = ce_FullName req,
             e_Position = ce_Position req, e_HiredAt = ce_HiredAt req, e_CreatedAt = 0\<rparr>"
  let ?e2 = "\<lparr>e_ID = employees_id_seq (committed s), e_DepartmentID = D,
              e_FullName = TrimSpace (ce_FullName req), e_Position = TrimSpace (ce_Position req),
              e_HiredAt = ce_HiredAt req, e_CreatedAt = now\<rparr>"
  have "D \<in> row_id ` set (departments (view DB s))" using dex by (simp add: view_def)
  from First_found [OF nf this] obtain r0 s1 where
    f: "First DB D s = (Inr (scan r0), s1)" and c1: "committed s1 = committed s"
    and nf1: "set (faults s1) \<subseteq> {None}" by blast
  have h: "Employee_BeforeSave ?e =
      (?e\<lparr>e_FullName := TrimSpace (ce_FullName req), e_Position := TrimSpace (ce_Position req)\<rparr>,
       None)"
    using Employee_BeforeSave_accepts [of ?e] fn pos by simp
  obtain x s2 where c: "call OpCreate s1 = (x, s2)" by (cases "call OpCreate s1")
  have x: "x = None" using call_no_fault [OF nf1, of OpCreate] c by simp
  have c2: "committed s2 = committed s" using call_committed [OF c] c1 by simp
  have fk: "fk_ok (committed s2) (Some D)" using dex c2 by (simp add: fk_ok_def)
  have cr: "Create_Employee now ?e s1 =
      ((?e2, None),
       s2\<lparr>committed := (committed s)\<lparr>employees := employees (committed s) @ [?e2],
            employees_id_seq := employees_id_seq (committed s) + 1\<rparr>\<rparr>)"
    using h c x c2 fk by (simp add: Create_Employee_def Let_def)
  show "fst (createEmployee now idStr (Some req) s) = respondJSON 201 (EmployeeBody ?e2)"
    using id f cr by (simp add: createEmployee_def)
  show "employees (committed (snd (createEmployee now idStr (Some req) s))) =
           employees (committed s) @ [?e2]"
    using id f cr by (simp add: createEmployee_def)
qed

lemma Employee_BeforeSave_position_cases:
  "e_Position (fst (Employee_BeforeSave e)) =
     (if snd (Employee_BeforeSave e) = Some (ErrNew ''full_name cannot be empty'') \<or>
         snd (Employee_BeforeSave e) = Some (ErrNew ''full_name too long (max 200)'')
      then e_Position e else TrimSpace (e_Position e))"
  by (auto simp: Employee_BeforeSave_def Let_def)

text \<open>
  Claim C8, as stated, fails at two inputs. An employee whose full name is blank is
  refused before its position is looked at, so the position \<open>" P "\<close> stays untrimmed
  in the record. And the bound of the hooks is on \<open>len\<close>, the number of bytes: a department
  name of 101 two-byte characters (the Cyrillic letter U+0438), well within 200
  characters, is refused as too long and nothing is stored.
\<close>

theorem position_untrimmed_and_two_byte_name_refused:
  "snd (Employee_BeforeSave
          \<lparr>e_ID = 0, e_DepartmentID = 1, e_FullName = [32], e_Position = [32, 80, 32],
           e_HiredAt = None, e_CreatedAt = 0\<rparr>) = Some (ErrNew ''full_name cannot be empty'') \<and>
   e_Position (fst (Employee_BeforeSave
          \<lparr>e_ID = 0, e_DepartmentID = 1, e_FullName = [32], e_Position = [32, 80, 32],
           e_HiredAt = None, e_CreatedAt = 0\<rparr>)) = [32, 80, 32] \<and>
   TrimSpace [32, 80, 32] = [80] \<and>
   length (TrimSpace (replicate 101 1080)) = 101 \<and>
   fst (createDepartment 5 (Some \<lparr>cd_Name = replicate 101 1080, cd_ParentID = None\<rparr>) init_db) =
     respondError 400 (ErrorText (ErrNew ''name too long (max 200)'')) \<and>
   committed (snd (createDepartment 5
       (Some \<lparr>cd_Name = replicate 101 1080, cd_ParentID = None\<rparr>) init_db)) = committed init_db"
proof -
  have a: "snd (Employee_BeforeSave
          \<lparr>e_ID = 0, e_DepartmentID = 1, e_FullName = [32], e_Position = [32, 80, 32],
           e_HiredAt = None, e_CreatedAt = 0\<rparr>) = Some (ErrNew ''full_name cannot be empty'')"
    by (simp add: Employee_BeforeSave_def Let_def TrimSpace_def IsSpace_def len_def)
  have b: "e_Position (fst (Employee_BeforeSave
          \<lparr>e_ID = 0, e_DepartmentID = 1, e_FullName = [32], e_Position = [32, 80, 32],
           e_HiredAt = None, e_CreatedAt = 0\<rparr>)) = [32, 80, 32]"
    by (simp add: Employee_BeforeSave_def Let_def TrimSpace_def IsSpace_def len_def)
  have c: "TrimSpace [32, 80, 32] = [80]"
    by (simp add: TrimSpace_def IsSpace_def)
  have ns: "\<not> IsSpace 1080" by (simp add: IsSpace_def)
  have t: "TrimSpace (replicate 101 1080) = replicate 101 1080"
    by (rule TrimSpace_replicate [OF ns])
  have l: "len (replicate 101 1080) = 202" by (simp add: len_replicate RuneLen_def)
  have d: "length (TrimSpace (replicate 101 1080)) = 101" by (simp add: t)
  have h: "Department_BeforeSave DB (Department 0 (replicate 101 1080) None 0 [] []) init_db =
      ((Department 0 (replicate 101 1080) None 0 [] [],
        Some (ErrNew ''name too long (max 200)'')), init_db)"
    by (simp add: Department_BeforeSave_def Let_def with_Name_def t l)
  have r: "createDepartment 5 (Some \<lparr>cd_Name = replicate 101 1080, cd_ParentID = None\<rparr>) init_db =
      (respondError 400 (ErrorText (ErrNew ''name too long (max 200)'')), init_db)"
    by (simp add: createDepartment_def Create_Department_def h)
  from a b c d r show ?thesis by simp
qed

text \<open>
  Claim C8, amended. The hooks replace the name, respectively the full name, by its
  trimmed form in the record itself, and the position too unless the full name was
  refused (it is then left as given). A department whose trimmed name is empty or longer
  than 200 characters, and an employee with such a full name or position, is refused
  with a validation error; the create handlers then do not answer 201 and leave the
  tables as they were. A record whose trimmed fields are non-empty and at most 200 bytes
  long is accepted: with no failing database call, an existing department (or parent) and
  no sibling of the same name, the create handlers answer 201 with the trimmed record and
  append it to the table. Whenever a create handler answers 201, the returned record
  carries the trimmed input, of 1 to 200 characters.
\<close>

theorem BeforeSave_trims_validates_accepts:
  "d_Name (fst (fst (Department_BeforeSave h d s))) = TrimSpace (d_Name d) \<and>
   e_FullName (fst (Employee_BeforeSave e)) = TrimSpace (e_FullName e) \<and>
   e_Position (fst (Employee_BeforeSave e)) =
     (if snd (Employee_BeforeSave e) = Some (ErrNew ''full_name cannot be empty'') \<or>
         snd (Employee_BeforeSave e) = Some (ErrNew ''full_name too long (max 200)'')
      then e_Position e else TrimSpace (e_Position e)) \<and>
   (TrimSpace (d_Name d) = [] \<or> 200 < length (TrimSpace (d_Name d)) \<longrightarrow>
      snd (fst (Department_BeforeSave h d s)) = Some (ErrNew ''name cannot be empty'') \<or>
      snd (fst (Department_BeforeSave h d s)) = Some (ErrNew ''name too long (max 200)'')) \<and>
   (TrimSpace (e_FullName e) = [] \<or> 200 < length (TrimSpace (e_FullName e)) \<or>
    TrimSpace (e_Position e) = [] \<or> 200 < length (TrimSpace (e_Position e)) \<longrightarrow>
      (\<exists>m. snd (Employee_BeforeSave e) = Some (ErrNew m))) \<and>
   (TrimSpace (e_FullName e) \<noteq> [] \<and> len (TrimSpace (e_FullName e)) \<le> 200 \<and>
    TrimSpace (e_Position e) \<noteq> [] \<and> len (TrimSpace (e_Position e)) \<le> 200 \<longrightarrow>
      Employee_BeforeSave e =
        (e\<lparr>e_FullName := TrimSpace (e_FullName e), e_Position := TrimSpace (e_Position e)\<rparr>,
         None)) \<and>
   (set (faults s) \<subseteq> {None} \<and> fk_ok (committed s) (cd_ParentID dreq) \<and>
    TrimSpace (cd_Name dreq) \<noteq> [] \<and> len (TrimSpace (cd_Name dreq)) \<le> 200 \<and>
    (\<forall>r \<in> set (departments (committed s)).
       \<not> (row_name r = TrimSpace (cd_Name dreq) \<and> row_parent_id r = cd_ParentID dreq)) \<longrightarrow>
      fst (createDepartment now (Some dreq) s) =
        respondJSON 201 (DepartmentBody
          (Department (departments_id_seq (committed s)) (TrimSpace (cd_Name dreq))
             (cd_ParentID dreq) now [] [])) \<and>
      departments (committed (snd (createDepartment now (Some dreq) s))) =
        departments (committed s) @
          [\<lparr>row_id = departments_id_seq (committed s), row_name = TrimSpace (cd_Name dreq),
            row_parent_id = cd_ParentID dreq, row_created_at = now\<rparr>]) \<and>
   (status (fst (createDepartment now (Some dreq) s)) = 201 \<longrightarrow>
      (\<exists>d'. body (fst (createDepartment now (Some dreq) s)) = DepartmentBody d' \<and>
            d_Name d' = TrimSpace (cd_Name dreq) \<and>
            1 \<le> length (d_Name d') \<and> length (d_Name d') \<le> 200 \<and>
            departments (committed (snd (createDepartment now (Some dreq) s))) =
              departments (committed s) @ [row_of d'])) \<and>
   (status (fst (createDepartment now (Some dreq) s)) \<noteq> 201 \<longrightarrow>
      committed (snd (createDepartment now (Some dreq) s)) = committed s) \<and>
   (TrimSpace (cd_Name dreq) = [] \<or> 200 < length (TrimSpace (cd_Name dreq)) \<longrightarrow>
      status (fst (createDepartment now (Some dreq) s)) \<noteq> 201) \<and>
   (set (faults s) \<subseteq> {None} \<and> Atoi idStr = Some D \<and>
    D \<in> row_id ` set (departments (committed s)) \<and>
    TrimSpace (ce_FullName ereq) \<noteq> [] \<and> len (TrimSpace (ce_FullName ereq)) \<le> 200 \<and>
    TrimSpace (ce_Position ereq) \<noteq> [] \<and> len (TrimSpace (ce_Position ereq)) \<le> 200 \<longrightarrow>
      fst (createEmployee now idStr (Some ereq) s) =
        respondJSON 201 (EmployeeBody
          \<lparr>e_ID = employees_id_seq (committed s), e_DepartmentID = D,
           e_FullName = TrimSpace (ce_FullName ereq), e_Position = TrimSpace (ce_Position ereq),
           e_HiredAt = ce_HiredAt ereq, e_CreatedAt = now\<rparr>) \<and>
      employees (committed (snd (createEmployee now idStr (Some ereq) s))) =
        employees (committed s) @
          [\<lparr>e_ID = employees_id_seq (committed s), e_DepartmentID = D,
            e_FullName = TrimSpace (ce_FullName ereq), e_Position = TrimSpace (ce_Position ereq),
            e_HiredAt = ce_HiredAt ereq, e_CreatedAt = now\<rparr>]) \<and>
   (status (fst (createEmployee now idStr (Some ereq) s)) = 201 \<longrightarrow>
      (\<exists>e'. body (fst (createEmployee now idStr (Some ereq) s)) = EmployeeBody e' \<and>
            e_FullName e' = TrimSpace (ce_FullName ereq) \<and>
            e_Position e' = TrimSpace (ce_Position ereq) \<and>
            1 \<le> length (e_FullName e') \<and> length (e_FullName e') \<le> 200 \<and>
            1 \<le> length (e_Position e') \<and> length (e_Position e') \<le> 200 \<and>
            employees (committed (snd (createEmployee now idStr (Some ereq) s))) =
              employees (committed s) @ [e'])) \<and>
   (status (fst (createEmployee now idStr (Some ereq) s)) \<noteq> 201 \<longrightarrow>
      committed (snd (createEmployee now idStr (Some ereq) s)) = committed s) \<and>
   (TrimSpace (ce_FullName ereq) = [] \<or> 200 < length (TrimSpace (ce_FullName ereq)) \<or>
    TrimSpace (ce_Position ereq) = [] \<or> 200 < length (TrimSpace (ce_Position ereq)) \<longrightarrow>
      status (fst (createEmployee now idStr (Some ereq) s)) \<noteq> 201)"
proof -
  obtain rd sd where cd: "createDepartment now (Some dreq) s = (rd, sd)"
    by (cases "createDepartment now (Some dreq) s")
  obtain re se where ce: "createEmployee now idStr (Some ereq) s = (re, se)"
    by (cases "createEmployee now idStr (Some ereq) s")
  have d_inv: "TrimSpace (d_Name d) = [] \<or> 200 < length (TrimSpace (d_Name d)) \<longrightarrow>
      snd (fst (Department_BeforeSave h d s)) = Some (ErrNew ''name cannot be empty'') \<or>
      snd (fst (Department_BeforeSave h d s)) = Some (ErrNew ''name too long (max 200)'')"
    using Department_BeforeSave_invalid [of d h s] by blast
  have e_inv: "TrimSpace (e_FullName e) = [] \<or> 200 < length (TrimSpace (e_FullName e)) \<or>
      TrimSpace (e_Position e) = [] \<or> 200 < length (TrimSpace (e_Position e)) \<longrightarrow>
      (\<exists>m. snd (Employee_BeforeSave e) = Some (ErrNew m))"
    using Employee_BeforeSave_invalid [of e] by blast
  have e_acc: "TrimSpace (e_FullName e) \<noteq> [] \<and> len (TrimSpace (e_FullName e)) \<le> 200 \<and>
      TrimSpace (e_Position e) \<noteq> [] \<and> len (TrimSpace (e_Position e)) \<le> 200 \<longrightarrow>
      Employee_BeforeSave e =
        (e\<lparr>e_FullName := TrimSpace (e_FullName e), e_Position := TrimSpace (e_Position e)\<rparr>,
         None)"
    using Employee_BeforeSave_accepts [of e] by blast
  have d_acc: "set (faults s) \<subseteq> {None} \<and> fk_ok (committed s) (cd_ParentID dreq) \<and>
      TrimSpace (cd_Name dreq) \<noteq> [] \<and> len (TrimSpace (cd_Name dreq)) \<le> 200 \<and>
      (\<forall>r \<in> set (departments (committed s)).
         \<not> (row_name r = TrimSpace (cd_Name dreq) \<and> row_parent_id r = cd_ParentID dreq)) \<longrightarrow>
      fst (rd, sd) =
        respondJSON 201 (DepartmentBody
          (Department (departments_id_seq (committed s)) (TrimSpace (cd_Name dreq))
             (cd_ParentID dreq) now [] [])) \<and>
      departments (committed (snd (rd, sd))) =
        departments (committed s) @
          [\<lparr>row_id = departments_id_seq (committed s), row_name = TrimSpace (cd_Name dreq),
            row_parent_id = cd_ParentID dreq, row_created_at = now\<rparr>]"
    using createDepartment_accepts [of s dreq now] unfolding cd by blast
  have d_ok: "status rd = 201 \<longrightarrow>
      (\<exists>d'. body rd = DepartmentBody d' \<and> d_Name d' = TrimSpace (cd_Name dreq) \<and>
            1 \<le> length (d_Name d') \<and> length (d_Name d') \<le> 200 \<and>
            departments (committed sd) = departments (committed s) @ [row_of d'])"
    using createDepartment_created [OF cd] by blast
  have d_no: "status rd \<noteq> 201 \<longrightarrow> committed sd = committed s"
    using createDepartment_not_created [OF cd] by blast
  have d_bad: "TrimSpace (cd_Name dreq) = [] \<or> 200 < length (TrimSpace (cd_Name dreq)) \<longrightarrow>
      status rd \<noteq> 201"
    using d_ok by auto
  have e_cacc: "set (faults s) \<subseteq> {None} \<and> Atoi idStr = Some D \<and>
      D \<in> row_id ` set (departments (committed s)) \<and>
      TrimSpace (ce_FullName ereq) \<noteq> [] \<and> len (TrimSpace (ce_FullName ereq)) \<le> 200 \<and>
      TrimSpace (ce_Position ereq) \<noteq> [] \<and> len (TrimSpace (ce_Position ereq)) \<le> 200 \<longrightarrow>
      fst (re, se) =
        respondJSON 201 (EmployeeBody
          \<lparr>e_ID = employees_id_seq (committed s), e_DepartmentID = D,
           e_FullName = TrimSpace (ce_FullName ereq), e_Position = TrimSpace (ce_Position ereq),
           e_HiredAt = ce_HiredAt ereq, e_CreatedAt = now\<rparr>) \<and>
      employees (committed (snd (re, se))) =
        employees (committed s) @
          [\<lparr>e_ID = employees_id_seq (committed s), e_DepartmentID = D,
            e_FullName = TrimSpace (ce_FullName ereq), e_Position = TrimSpace (ce_Position ereq),
            e_HiredAt = ce_HiredAt ereq, e_CreatedAt = now\<rparr>]"
    using createEmployee_accepts [of s idStr D ereq now] unfolding ce by blast
  have e_ok: "status re = 201 \<longrightarrow>
      (\<exists>e'. body re = EmployeeBody e' \<and> e_FullName e' = TrimSpace (ce_FullName ereq) \<and>
            e_Position e' = TrimSpace (ce_Position ereq) \<and>
            1 \<le> length (e_FullName e') \<and> length (e_FullName e') \<le> 200 \<and>
            1 \<le> length (e_Position e') \<and> length (e_Position e') \<le> 200 \<and>
            employees (committed se) = employees (committed s) @ [e'])"
    using createEmployee_created [OF ce] by blast
  have e_no: "status re \<noteq> 201 \<longrightarrow> committed se = committed s"
    using createEmployee_not_created [OF ce] by blast
  have e_bad: "TrimSpace (ce_FullName ereq) = [] \<or> 200 < length (TrimSpace (ce_FullName ereq)) \<or>
      TrimSpace (ce_Position ereq) = [] \<or> 200 < length (TrimSpace (ce_Position ereq)) \<longrightarrow>
      status re \<noteq> 201"
    using e_ok by auto
  show ?thesis
    unfolding cd ce
    using Department_BeforeSave_name [of h d s] Employee_BeforeSave_fullname [of e]
      Employee_BeforeSave_position_cases [of e]
      d_inv e_inv e_acc d_acc d_ok d_no d_bad e_cacc e_ok e_no e_bad
    unfolding fst_conv snd_conv
    by (intro conjI) assumption+
qed

theorem BeforeSave_trims_validates_accepts_witness:
  "set (faults sample_db) \<subseteq> {None} \<and> Atoi ''1'' = Some 1 \<and>
   1 \<in> row_id ` set (departments (committed sample_db)) \<and>
   fst (createEmployee 5 ''1''
          (Some \<lparr>ce_FullName = [32, 65, 32], ce_Position = [9, 66], ce_HiredAt = None\<rparr>)
          sample_db) =
     respondJSON 201 (EmployeeBody
       \<lparr>e_ID = 5, e_DepartmentID = 1, e_FullName = [65], e_Position = [66], e_HiredAt = None,
        e_CreatedAt = 5\<rparr>) \<and>
   fst (createDepartment 5 (Some \<lparr>cd_Name = [32, 73, 84, 32], cd_ParentID = Some 1\<rparr>)
          sample_db) =
     respondJSON 201 (DepartmentBody (Department 7 [73, 84] (Some 1) 5 [] [])) \<and>
   Employee_BeforeSave
     \<lparr>e_ID = 0, e_DepartmentID = 1, e_FullName = replicate 200 97, e_Position = [32, 80],
      e_HiredAt = None, e_CreatedAt = 0\<rparr> =
     (\<lparr>e_ID = 0, e_DepartmentID = 1, e_FullName = replicate 200 97, e_Position = [80],
       e_HiredAt = None, e_CreatedAt = 0\<rparr>, None) \<and>
   (\<exists>m. snd (Employee_BeforeSave
            \<lparr>e_ID = 0, e_DepartmentID = 1, e_FullName = replicate 201 97, e_Position = [80],
             e_HiredAt = None, e_CreatedAt = 0\<rparr>) = Some (ErrNew m)) \<and>
   status (fst (createEmployee 5 ''1''
          (Some \<lparr>ce_FullName = [65], ce_Position = replicate 201 97, ce_HiredAt = None\<rparr>)
          sample_db)) \<noteq> 201 \<and>
   status (fst (createDepartment 5 (Some \<lparr>cd_Name = [32, 32], cd_ParentID = None\<rparr>)
          sample_db)) \<noteq> 201"
proof -
  let ?eA = "\<lparr>e_ID = 0, e_DepartmentID = 1, e_FullName = replicate 200 97,
              e_Position = [32, 80], e_HiredAt = None, e_CreatedAt = 0\<rparr>"
  let ?eR = "\<lparr>e_ID = 0, e_DepartmentID = 1, e_FullName = replicate 201 97,
              e_Position = [80], e_HiredAt = None, e_CreatedAt = 0\<rparr>"
  let ?dA = "\<lparr>cd_Name = [32, 73, 84, 32], cd_ParentID = Some 1\<rparr>"
  let ?dR = "\<lparr>cd_Name = [32, 32], cd_ParentID = None\<rparr>"
  let ?rA = "\<lparr>ce_FullName = [32, 65, 32], ce_Position = [9, 66], ce_HiredAt = None\<rparr>"
  let ?rR = "\<lparr>ce_FullName = [65], ce_Position = replicate 201 97, ce_HiredAt = None\<rparr>"
  note A = BeforeSave_trims_validates_accepts
    [where h = DB and d = "Department 0 [32, 73, 84, 32] (Some 1) 0 [] []" and s = sample_db
       and now = 5 and e = ?eA and dreq = ?dA and idStr = "''1''" and D = 1 and ereq = ?rA]
  note R = BeforeSave_trims_validates_accepts
    [where h = DB and d = "Department 0 [32, 32] None 0 [] []" and s = sample_db
       and now = 5 and e = ?eR and dreq = ?dR and idStr = "''1''" and D = 1 and ereq = ?rR]
  have ns: "\<not> IsSpace 97" by (simp add: IsSpace_def)
  have t200: "TrimSpace (replicate 200 97) = replicate 200 97"
    by (rule TrimSpace_replicate [OF ns])
  have t201: "TrimSpace (replicate 201 97) = replicate 201 97"
    by (rule TrimSpace_replicate [OF ns])
  have l200: "len (replicate 200 97) = 200" by (simp add: len_replicate RuneLen_def)
  have tr: "TrimSpace [32, 65, 32] = [65]" "TrimSpace [9, 66] = [66]"
    "TrimSpace [32, 73, 84, 32] = [73, 84]" "TrimSpace [32, 80] = [80]" "TrimSpace [32, 32] = []"
    "TrimSpace [65] = [65]" "TrimSpace [80] = [80]"
    by (simp_all add: TrimSpace_def IsSpace_def)
  have ln: "len [65] = 1" "len [66] = 1" "len [73, 84] = 2" "len [80] = 1"
    by (simp_all add: len_def RuneLen_def)
  have ex: "1 \<in> row_id ` set (departments (committed sample_db))" by (simp add: sample_ids)
  have a1: "fst (createEmployee 5 ''1'' (Some ?rA) sample_db) =
     respondJSON 201 (EmployeeBody
       \<lparr>e_ID = 5, e_DepartmentID = 1, e_FullName = [65], e_Position = [66], e_HiredAt = None,
        e_CreatedAt = 5\<rparr>)"
  proof -
    note A [THEN conjunct2, THEN conjunct2, THEN conjunct2, THEN conjunct2, THEN conjunct2,
        THEN conjunct2, THEN conjunct2, THEN conjunct2, THEN conjunct2, THEN conjunct2,
        THEN conjunct1]
    then have "fst (createEmployee 5 ''1'' (Some ?rA) sample_db) =
        respondJSON 201 (EmployeeBody
          \<lparr>e_ID = employees_id_seq (committed sample_db), e_DepartmentID = 1,
           e_FullName = [65], e_Position = [66], e_HiredAt = None, e_CreatedAt = 5\<rparr>)"
      using sample_no_faults Atoi_1 ex by (simp add: tr ln)
    then show ?thesis by (simp add: sample_db_def sample_tables_def)
  qed
  have a2: "fst (createDepartment 5 (Some ?dA) sample_db) =
     respondJSON 201 (DepartmentBody (Department 7 [73, 84] (Some 1) 5 [] []))"
  proof -
    have fk: "fk_ok (committed sample_db) (Some 1)" using ex by (simp add: fk_ok_def)
    have nd: "\<forall>r \<in> set (departments (committed sample_db)).
        \<not> (row_name r = [73, 84] \<and> row_parent_id r = Some 1)"
      by (simp add: sample_db_def sample_tables_def sample_row_def)
    note A [THEN conjunct2, THEN conjunct2, THEN conjunct2, THEN conjunct2, THEN conjunct2,
        THEN conjunct2, THEN conjunct1]
    then have "fst (createDepartment 5 (Some ?dA) sample_db) =
        respondJSON 201 (DepartmentBody
          (Department (departments_id_seq (committed sample_db)) [73, 84] (Some 1) 5 [] []))"
      using sample_no_faults fk nd by (simp add: tr ln)
    then show ?thesis by (simp add: sample_db_def sample_tables_def)
  qed
  have a3: "Employee_BeforeSave ?eA =
     (\<lparr>e_ID = 0, e_DepartmentID = 1, e_FullName = replicate 200 97, e_Position = [80],
       e_HiredAt = None, e_CreatedAt = 0\<rparr>, None)"
    using A [THEN conjunct2, THEN conjunct2, THEN conjunct2, THEN conjunct2, THEN conjunct2,
        THEN conjunct1]
    by (simp add: tr ln t200 l200)
  have r1: "\<exists>m. snd (Employee_BeforeSave ?eR) = Some (ErrNew m)"
    using R [THEN conjunct2, THEN conjunct2, THEN conjunct2, THEN conjunct2, THEN conjunct1]
    by (simp add: t201)
  have r2: "status (fst (createEmployee 5 ''1'' (Some ?rR) sample_db)) \<noteq> 201"
    using R [THEN conjunct2, THEN conjunct2, THEN conjunct2, THEN conjunct2, THEN conjunct2,
        THEN conjunct2, THEN conjunct2, THEN conjunct2, THEN conjunct2, THEN conjunct2,
        THEN conjunct2, THEN conjunct2, THEN conjunct2]
    by (simp add: t201)
  have r3: "status (fst (createDepartment 5 (Some ?dR) sample_db)) \<noteq> 201"
    using R [THEN conjunct2, THEN conjunct2, THEN conjunct2, THEN conjunct2, THEN conjunct2,
        THEN conjunct2, THEN conjunct2, THEN conjunct2, THEN conjunct2, THEN conjunct1]
    by (simp add: tr)
  from sample_no_faults Atoi_1 ex a1 a2 a3 r1 r2 r3 show ?thesis by (intro conjI)
qed

end
